theory Spec2Isabelle
  imports Main
begin

section \<open>JavaScript values and strings\<close>

text \<open>
  The records read from Attio are untyped JSON (the result of \<^verbatim>\<open>response.json()\<close>), and
  the extraction code inspects them dynamically. A value is therefore one of the
  JavaScript values JSON can produce, plus \<^verbatim>\<open>undefined\<close>, which a missing property reads as.

  A number is carried by its canonical rendering, the text \<^verbatim>\<open>String(n)\<close> yields: the
  code only tests numbers for truthiness and converts them to text, and both are
  functions of that rendering (\<^verbatim>\<open>0\<close>, \<^verbatim>\<open>-0\<close> render as \<^verbatim>\<open>0\<close>, and \<^verbatim>\<open>NaN\<close> as \<^verbatim>\<open>NaN\<close>).

  An object is the list of its own properties; the first binding of a key counts.
  A string is a list of characters with code points below 256.
\<close>

datatype json =
    JUndefined
  | JNull
  | JBool bool
  | JNum string
  | JStr string
  | JArr "json list"
  | JObj "(string \<times> json) list"

text \<open>Truthiness (\<^verbatim>\<open>if (x)\<close>, \<^verbatim>\<open>!x\<close>, \<^verbatim>\<open>a || b\<close>).\<close>

fun truthy :: "json \<Rightarrow> bool" where
  "truthy JUndefined = False"
| "truthy JNull = False"
| "truthy (JBool b) = b"
| "truthy (JNum r) = (r \<noteq> ''0'' \<and> r \<noteq> ''NaN'')"
| "truthy (JStr s) = (s \<noteq> [])"
| "truthy (JArr xs) = True"
| "truthy (JObj kvs) = True"

definition js_or :: "json \<Rightarrow> json \<Rightarrow> json" where
  "js_or a b = (if truthy a then a else b)"

text \<open>
  Property access \<^verbatim>\<open>v.k\<close> and \<^verbatim>\<open>v?.k\<close> for the property names the source reads. But for
  \<^verbatim>\<open>values\<close>, which has a definition of its own below, none of them is a member of the
  prototype of a primitive, an array or an object, so they are own properties of objects
  and everything else answers \<^verbatim>\<open>undefined\<close>. (Where the source writes \<^verbatim>\<open>v.k\<close> without
  \<^verbatim>\<open>?.\<close>, \<^verbatim>\<open>v\<close> is known to be neither \<^verbatim>\<open>null\<close> nor \<^verbatim>\<open>undefined\<close> at that point.)
\<close>

definition getProp :: "json \<Rightarrow> string \<Rightarrow> json" where
  "getProp v k = (case v of
      JObj kvs \<Rightarrow> (case map_of kvs k of Some x \<Rightarrow> x | None \<Rightarrow> JUndefined)
    | _ \<Rightarrow> JUndefined)"

text \<open>\<^verbatim>\<open>typeof v === 'string'\<close>.\<close>

definition isString :: "json \<Rightarrow> bool" where
  "isString v = (case v of JStr s \<Rightarrow> True | _ \<Rightarrow> False)"

definition nullish :: "json \<Rightarrow> bool" where
  "nullish v = (v = JUndefined \<or> v = JNull)"

fun joinComma :: "string list \<Rightarrow> string" where
  "joinComma [] = []"
| "joinComma [s] = s"
| "joinComma (s # t # ss) = s @ '','' @ joinComma (t # ss)"

text \<open>
  The conversion to text, which \<^verbatim>\<open>String(v)\<close>, a hole of a template literal and a computed
  property key \<^verbatim>\<open>table[v]\<close> apply. For an object and an array it calls the method
  \<^verbatim>\<open>toString\<close> of the value. An object read from JSON that has a member \<^verbatim>\<open>toString\<close> of its
  own hides the inherited method behind a value that cannot be called; the conversion
  then finds no method that gives a primitive and throws. An array joins the texts of its
  elements and throws when one of them does. \<^verbatim>\<open>js_String\<close> is the text of a value that has
  one.
\<close>

fun printable :: "json \<Rightarrow> bool" where
  "printable (JObj kvs) = (map_of kvs ''toString'' = None)"
| "printable (JArr xs) = list_all printable xs"
| "printable v = True"

fun js_String :: "json \<Rightarrow> string" where
  "js_String JUndefined = ''undefined''"
| "js_String JNull = ''null''"
| "js_String (JBool b) = (if b then ''true'' else ''false'')"
| "js_String (JNum r) = r"
| "js_String (JStr s) = s"
| "js_String (JArr xs) =
     joinComma (map (\<lambda>x. if x = JUndefined \<or> x = JNull then [] else js_String x) xs)"
| "js_String (JObj kvs) = ''[object Object]''"

text \<open>
  Errors are values. \<^verbatim>\<open>Error\<close> carries the message of a \<^verbatim>\<open>throw new Error(...)\<close>;
  \<^verbatim>\<open>TypeError\<close> is what the run time throws when a value of the wrong dynamic type is
  used as a string.
\<close>

datatype error = Error string | TypeError string

definition js_ToString :: "json \<Rightarrow> error + string" where
  "js_ToString v = (if printable v then Inr (js_String v)
                    else Inl (TypeError ''Cannot convert object to primitive value''))"

text \<open>\<^verbatim>\<open>String(v)\<close> as a value.\<close>

definition stringOf :: "json \<Rightarrow> error + json" where
  "stringOf v = (case js_ToString v of Inl e \<Rightarrow> Inl e | Inr s \<Rightarrow> Inr (JStr s))"

text \<open>
  \<^verbatim>\<open>trim\<close> removes the white space and line terminators of ECMAScript at both ends; below
  code point 256 these are TAB, LF, VT, FF, CR, SP and NBSP.
\<close>

definition isWhiteSpace :: "char \<Rightarrow> bool" where
  "isWhiteSpace c = (of_char c \<in> {9, 10, 11, 12, 13, 32, 160 :: nat})"

definition trim :: "string \<Rightarrow> string" where
  "trim s = rev (dropWhile isWhiteSpace (rev (dropWhile isWhiteSpace s)))"

text \<open>
  \<^verbatim>\<open>toLowerCase\<close>: below code point 256 the letters with a lower-case form are A to Z and
  U+00C0 to U+00DE without U+00D7; the lower-case form is 32 higher, which sets bit 5.
\<close>

definition isUpper :: "char \<Rightarrow> bool" where
  "isUpper c = (let n = of_char c :: nat in
     (65 \<le> n \<and> n \<le> 90) \<or> (192 \<le> n \<and> n \<le> 222 \<and> n \<noteq> 215))"

definition lowerChar :: "char \<Rightarrow> char" where
  "lowerChar c = (if isUpper c
     then (case c of Char b0 b1 b2 b3 b4 b5 b6 b7 \<Rightarrow> Char b0 b1 b2 b3 b4 True b6 b7)
     else c)"

definition toLowerCase :: "string \<Rightarrow> string" where
  "toLowerCase s = map lowerChar s"

text \<open>\<^verbatim>\<open>a.startsWith(b)\<close> and \<^verbatim>\<open>a.includes(b)\<close>.\<close>

fun startsWith :: "string \<Rightarrow> string \<Rightarrow> bool" where
  "startsWith a [] = True"
| "startsWith [] (y # ys) = False"
| "startsWith (x # xs) (y # ys) = (x = y \<and> startsWith xs ys)"

fun str_includes :: "string \<Rightarrow> string \<Rightarrow> bool" where
  "str_includes [] b = (b = [])"
| "str_includes (x # xs) b = (startsWith (x # xs) b \<or> str_includes xs b)"

section \<open>Attribute extraction (attribute-mapping.server.ts)\<close>

text \<open>
  \<^verbatim>\<open>extractAttioValue(attioData: unknown): string | null\<close>. The result is a JavaScript
  value: the declared type is not enforced at run time, and the last line of the array
  branch returns a member of the entry as it is. The function throws where a conversion
  to text does. \<^verbatim>\<open>fullName\<close> is the template literal of line 32, trimmed.
\<close>

definition fullName :: "json \<Rightarrow> json \<Rightarrow> error + json" where
  "fullName firstName lastName =
    (case js_ToString firstName of
       Inl e \<Rightarrow> Inl e
     | Inr f \<Rightarrow> (case js_ToString lastName of
                   Inl e \<Rightarrow> Inl e
                 | Inr l \<Rightarrow> Inr (JStr (trim (f @ '' '' @ l)))))"

definition extractAttioValue :: "json \<Rightarrow> error + json" where
  "extractAttioValue attioData =
    (if \<not> truthy attioData then Inr JNull
     else case attioData of
       JArr (entry # rest) \<Rightarrow>
         (if truthy (getProp (getProp entry ''option'') ''title'')
            then stringOf (getProp (getProp entry ''option'') ''title'')
          else if getProp entry ''value'' \<noteq> JUndefined \<and> getProp entry ''value'' \<noteq> JNull
            then stringOf (getProp entry ''value'')
          else if truthy (getProp entry ''first_name'') \<or> truthy (getProp entry ''last_name'') then
            (if truthy (getProp entry ''full_name'')
               then stringOf (getProp entry ''full_name'')
             else if truthy (getProp entry ''first_name'') \<and> truthy (getProp entry ''last_name'')
               then fullName (getProp entry ''first_name'') (getProp entry ''last_name'')
             else stringOf (js_or (getProp entry ''first_name'')
                              (js_or (getProp entry ''last_name'') (JStr ''''))))
          else if truthy (getProp entry ''email_address'')
            then stringOf (getProp entry ''email_address'')
          else if truthy (getProp entry ''phone_number'')
            then stringOf (getProp entry ''phone_number'')
          else Inr (js_or (getProp entry ''title'')
                      (js_or (getProp entry ''name'') (js_or (getProp entry ''label'') JNull))))
     | JStr s \<Rightarrow> Inr (JStr s)
     | JNum r \<Rightarrow> Inr (JStr r)
     | JObj kvs \<Rightarrow>
         (if isString (getProp attioData ''value'') then Inr (getProp attioData ''value'')
          else if isString (getProp attioData ''title'') then Inr (getProp attioData ''title'')
          else if isString (getProp attioData ''name'') then Inr (getProp attioData ''name'')
          else if isString (getProp attioData ''label'') then Inr (getProp attioData ''label'')
          else Inr JNull)
     | _ \<Rightarrow> Inr JNull)"

text \<open>What the declared return type \<^verbatim>\<open>string | null\<close> admits.\<close>

definition isStringOrNull :: "json \<Rightarrow> bool" where
  "isStringOrNull v = (case v of JStr s \<Rightarrow> True | JNull \<Rightarrow> True | _ \<Rightarrow> False)"

section \<open>The two platforms as the environment\<close>

text \<open>
  The Apollo module validates the contacts, accounts and opportunities it answers with
  against a schema, so what the sync code sees of them is typed: their optional, nullable
  string members are \<open>None\<close> when missing or null. A stage has a string id and a string
  name: the contact stage list is validated, and the two stage caches are declared
  \<^verbatim>\<open>Array<{id: string; name: string}>\<close>. (\<^verbatim>\<open>listApolloOpportunityStages\<close> validates its
  answer too, but falls back to reading the stages out of an answer of another shape as
  they are; the look-ups are modelled over the declared type of the cache.)
\<close>

record stage =
  stage_id :: string
  stage_name :: string

record apollo_contact =
  contact_id :: "string option"
  contact_email :: "string option"
  contact_first_name :: "string option"

record apollo_account =
  account_id :: "string option"
  account_name :: "string option"
  account_domain :: "string option"
  account_website_url :: "string option"

record apollo_opportunity =
  opp_id :: "string option"
  opp_name :: "string option"
  opp_description :: "string option"

text \<open>
  A call of a function of the Apollo module (apollo-api.server.ts), with the arguments the
  caller passes. The HTTP traffic inside such a function belongs to the transport.
  \<^verbatim>\<open>GetApolloOrganizationId\<close> stands for the account look-up the deal sync delegates to
  get-apollo-organization-id.server.ts.
\<close>

datatype apollo_request =
    ListApolloContactStages
  | ListApolloOpportunityStages
  | SearchApolloContacts json nat
  | CreateApolloContact json
  | UpdateApolloContact string json
  | SearchApolloAccounts json nat
  | CreateApolloAccount json
  | UpdateApolloAccount string json
  | SearchApolloOpportunitiesByName json nat
  | SearchApolloOpportunitiesByKeywords json nat
  | CreateApolloOpportunity json
  | UpdateApolloOpportunity string json
  | GetApolloOrganizationId json

text \<open>
  The environment answers every call: with a value, or with the error the call throws.
  An answer may depend on the call and on the number of calls made before it, so the remote
  data may change between two calls. \<^verbatim>\<open>attioFetch\<close> is the Attio transport, addressed by
  end point. The last four members are computations of the sync modules that rest on
  regular expressions, the URL parser and the number parser of the run time; they are
  introduced where they are used.
\<close>

record env =
  attioFetch :: "string \<Rightarrow> error + json"
  contactStagesAnswer :: "nat \<Rightarrow> error + stage list"
  opportunityStagesAnswer :: "nat \<Rightarrow> error + stage list"
  contactSearchAnswer :: "nat \<Rightarrow> apollo_request \<Rightarrow> error + apollo_contact list"
  contactWriteAnswer :: "nat \<Rightarrow> apollo_request \<Rightarrow> error + apollo_contact"
  accountSearchAnswer :: "nat \<Rightarrow> apollo_request \<Rightarrow> error + apollo_account list"
  accountWriteAnswer :: "nat \<Rightarrow> apollo_request \<Rightarrow> error + apollo_account"
  opportunitySearchAnswer :: "nat \<Rightarrow> apollo_request \<Rightarrow> error + apollo_opportunity list"
  opportunityWriteAnswer :: "nat \<Rightarrow> apollo_request \<Rightarrow> error + apollo_opportunity"
  organizationIdAnswer :: "nat \<Rightarrow> apollo_request \<Rightarrow> error + string option"
  companyDomain :: "json \<Rightarrow> error + string option"
  companyAttributes :: "json \<Rightarrow> error + (string \<times> json) list"
  domainMatches :: "string \<Rightarrow> apollo_account \<Rightarrow> bool"
  extractNumberValue :: "json \<Rightarrow> error + json"

text \<open>
  The messages of the stage modules that tell which branch a look-up took, and the two
  closing messages of the event handler. The rest of the console output is not modelled.
\<close>

datatype mapper = ContactStages | OpportunityStages

datatype log_event =
    FetchedStages mapper nat
  | FetchFailed mapper
  | NoStagesAvailable mapper
  | ExactMatchFound mapper string string
  | PartialMatchFound mapper string string
  | NoMatchFound mapper string
  | ManualMapping mapper string
  | AppearsToBeId mapper string
  | PassThrough mapper string
  | SyncSucceeded string
  | SyncFailed string error

text \<open>
  The process state: the two module-level stage caches (\<open>None\<close> is \<^verbatim>\<open>null\<close>), the calls
  made to the Apollo module so far, oldest first, and the console.
\<close>

record world =
  apolloStagesCache :: "stage list option"
  apolloOpportunityStagesCache :: "stage list option"
  requests :: "apollo_request list"
  console :: "log_event list"

definition issue :: "apollo_request \<Rightarrow> world \<Rightarrow> world" where
  "issue r w = w\<lparr>requests := requests w @ [r]\<rparr>"

definition emit :: "log_event \<Rightarrow> world \<Rightarrow> world" where
  "emit e w = w\<lparr>console := console w @ [e]\<rparr>"

section \<open>Contact stage mapping (stage-mapping.server.ts)\<close>

definition getApolloStages :: "env \<Rightarrow> world \<Rightarrow> stage list \<times> world" where
  "getApolloStages env w =
    (case apolloStagesCache w of
       Some cached \<Rightarrow> (cached, w)
     | None \<Rightarrow>
        (case contactStagesAnswer env (length (requests w)) of
           Inr stages \<Rightarrow>
             (stages, emit (FetchedStages ContactStages (length stages))
                        ((issue ListApolloContactStages w)\<lparr>apolloStagesCache := Some stages\<rparr>))
         | Inl e \<Rightarrow> ([], emit (FetchFailed ContactStages) (issue ListApolloContactStages w))))"

text \<open>
  The mapping tables are object literals indexed by a caller's text, so a name of a
  member of \<^verbatim>\<open>Object.prototype\<close> finds that member (a function or an object, never a
  string) instead of \<^verbatim>\<open>undefined\<close>.
\<close>

definition objectPrototypeKeys :: "string list" where
  "objectPrototypeKeys = [''constructor'', ''__defineGetter__'', ''__defineSetter__'',
     ''hasOwnProperty'', ''__lookupGetter__'', ''__lookupSetter__'', ''isPrototypeOf'',
     ''propertyIsEnumerable'', ''toString'', ''valueOf'', ''__proto__'', ''toLocaleString'']"

datatype table_hit = NoEntry | Mapped string | Inherited

definition tableLookup :: "(string \<times> string) list \<Rightarrow> string \<Rightarrow> table_hit" where
  "tableLookup table k = (case map_of table k of
      Some v \<Rightarrow> Mapped v
    | None \<Rightarrow> if k \<in> set objectPrototypeKeys then Inherited else NoEntry)"

fun hitTruthy :: "table_hit \<Rightarrow> bool" where
  "hitTruthy NoEntry = False"
| "hitTruthy (Mapped v) = (v \<noteq> [])"
| "hitTruthy Inherited = True"

definition STAGE_NAME_MAPPING :: "(string \<times> string) list" where
  "STAGE_NAME_MAPPING = []"

definition normalizeStage :: "string \<Rightarrow> string option" where
  "normalizeStage stage = (if stage = [] then None else Some (toLowerCase (trim stage)))"

text \<open>\<^verbatim>\<open>x || ""\<close> for a normalized name.\<close>

definition orEmpty :: "string option \<Rightarrow> string" where
  "orEmpty x = (case x of Some s \<Rightarrow> s | None \<Rightarrow> [])"

text \<open>The two \<^verbatim>\<open>stages.find\<close> of \<^verbatim>\<open>findApolloStageIdByName\<close>.\<close>

definition exactMatch :: "stage list \<Rightarrow> string option \<Rightarrow> stage option" where
  "exactMatch stages normalized =
     List.find (\<lambda>s. normalizeStage (stage_name s) = normalized) stages"

definition partialMatch :: "stage list \<Rightarrow> string option \<Rightarrow> stage option" where
  "partialMatch stages normalized =
     List.find (\<lambda>s.
        (case normalizeStage (stage_name s) of
           Some sNormalized \<Rightarrow> str_includes sNormalized (orEmpty normalized)
         | None \<Rightarrow> False)
        \<or> (case normalized of
           Some n \<Rightarrow> str_includes n (orEmpty (normalizeStage (stage_name s)))
         | None \<Rightarrow> False)) stages"

definition findApolloStageIdByName :: "env \<Rightarrow> string \<Rightarrow> world \<Rightarrow> string option \<times> world" where
  "findApolloStageIdByName env stageName w =
    (let (stages, w1) = getApolloStages env w;
         normalized = normalizeStage stageName
     in case exactMatch stages normalized of
          Some m \<Rightarrow> (Some (stage_id m), emit (ExactMatchFound ContactStages stageName (stage_id m)) w1)
        | None \<Rightarrow>
           (case partialMatch stages normalized of
              Some m \<Rightarrow>
                (Some (stage_id m), emit (PartialMatchFound ContactStages stageName (stage_id m)) w1)
            | None \<Rightarrow> (None, emit (NoMatchFound ContactStages stageName) w1)))"

text \<open>\<^verbatim>\<open>s.length > 20 && /^[a-zA-Z0-9]+$/.test(s)\<close>.\<close>

definition isAlnum :: "char \<Rightarrow> bool" where
  "isAlnum c = (let n = of_char c :: nat in
     (48 \<le> n \<and> n \<le> 57) \<or> (65 \<le> n \<and> n \<le> 90) \<or> (97 \<le> n \<and> n \<le> 122))"

definition looksLikeId :: "string \<Rightarrow> bool" where
  "looksLikeId s = (length s > 20 \<and> list_all isAlnum s)"

text \<open>
  \<^verbatim>\<open>findApolloStageIdByName(mappedName)\<close> for what the table gave: a mapped name is looked
  up; an inherited member is not a string, and \<^verbatim>\<open>normalizeStage\<close> throws on it after the
  stages were fetched.
\<close>

definition findMapped :: "env \<Rightarrow> table_hit \<Rightarrow> world \<Rightarrow> (error + string option) \<times> world" where
  "findMapped env hit w =
    (case hit of
       Mapped m \<Rightarrow> (let (sid, w1) = findApolloStageIdByName env m w in (Inr sid, w1))
     | Inherited \<Rightarrow>
         (let (stages, w1) = getApolloStages env w
          in (Inl (TypeError ''stage.trim is not a function''), w1))
     | NoEntry \<Rightarrow> (Inr None, w))"

definition mapStageToApollo :: "env \<Rightarrow> string \<Rightarrow> world \<Rightarrow> (error + string) \<times> world" where
  "mapStageToApollo env attioStage w =
    (if attioStage = [] then (Inr attioStage, w)
     else
      let mappedName =
            (if hitTruthy (tableLookup STAGE_NAME_MAPPING attioStage)
             then tableLookup STAGE_NAME_MAPPING attioStage
             else tableLookup STAGE_NAME_MAPPING (orEmpty (normalizeStage attioStage)));
          (viaTable, w1) =
            (if hitTruthy mappedName
             then findMapped env mappedName (emit (ManualMapping ContactStages attioStage) w)
             else (Inr None, w))
      in case viaTable of
           Inl e \<Rightarrow> (Inl e, w1)
         | Inr found \<Rightarrow>
            (if orEmpty found \<noteq> [] then (Inr (orEmpty found), w1)
             else
              let (direct, w2) = findApolloStageIdByName env attioStage w1
              in if orEmpty direct \<noteq> [] then (Inr (orEmpty direct), w2)
                 else if looksLikeId attioStage
                   then (Inr attioStage, emit (AppearsToBeId ContactStages attioStage) w2)
                 else (Inr attioStage, emit (PassThrough ContactStages attioStage) w2)))"

section \<open>Opportunity stage mapping (opportunity-stage-mapping.server.ts)\<close>

definition getApolloOpportunityStages :: "env \<Rightarrow> world \<Rightarrow> stage list \<times> world" where
  "getApolloOpportunityStages env w =
    (case apolloOpportunityStagesCache w of
       Some cached \<Rightarrow> (cached, w)
     | None \<Rightarrow>
        (case opportunityStagesAnswer env (length (requests w)) of
           Inr stages \<Rightarrow>
             (stages, emit (FetchedStages OpportunityStages (length stages))
                ((issue ListApolloOpportunityStages w)\<lparr>apolloOpportunityStagesCache := Some stages\<rparr>))
         | Inl e \<Rightarrow>
             ([], emit (FetchFailed OpportunityStages) (issue ListApolloOpportunityStages w))))"

definition OPPORTUNITY_STAGE_NAME_MAPPING :: "(string \<times> string) list" where
  "OPPORTUNITY_STAGE_NAME_MAPPING =
    [(''NS/Reschedule'', ''NS/Reschedule''),
     (''Discovery Call Booked'', ''Discovery Call Booked''),
     (''Proposal Sent'', ''Proposal Sent''),
     (''Negotiation'', ''Negotiation''),
     (''Contract Sent'', ''Contract Sent''),
     (''Closed Won'', ''Closed Won''),
     (''Closed Lost'', ''Closed Lost''),
     (''On Hold'', ''On Hold''),
     (''ns/reschedule'', ''NS/Reschedule''),
     (''discovery call booked'', ''Discovery Call Booked''),
     (''proposal sent'', ''Proposal Sent''),
     (''negotiation'', ''Negotiation''),
     (''contract sent'', ''Contract Sent''),
     (''closed won'', ''Closed Won''),
     (''closed lost'', ''Closed Lost''),
     (''on hold'', ''On Hold'')]"

text \<open>The two \<^verbatim>\<open>stages.find\<close> of \<^verbatim>\<open>findApolloOpportunityStageIdByName\<close>.\<close>

definition exactOpportunityMatch :: "stage list \<Rightarrow> string \<Rightarrow> stage option" where
  "exactOpportunityMatch stages normalizedSearch =
     List.find (\<lambda>s. normalizeStage (stage_name s) = Some normalizedSearch) stages"

definition partialOpportunityMatch :: "stage list \<Rightarrow> string \<Rightarrow> stage option" where
  "partialOpportunityMatch stages normalizedSearch =
     List.find (\<lambda>s.
        (case normalizeStage (stage_name s) of
           Some normalized \<Rightarrow>
             normalized \<noteq> [] \<and>
             (str_includes normalized normalizedSearch \<or> str_includes normalizedSearch normalized)
         | None \<Rightarrow> False)) stages"

definition findApolloOpportunityStageIdByName ::
    "env \<Rightarrow> string \<Rightarrow> world \<Rightarrow> string option \<times> world" where
  "findApolloOpportunityStageIdByName env stageName w =
    (let (stages, w1) = getApolloOpportunityStages env w
     in if stages = [] then (None, emit (NoStagesAvailable OpportunityStages) w1)
        else if orEmpty (normalizeStage stageName) = [] then (None, w1)
        else
          let normalizedSearch = orEmpty (normalizeStage stageName)
          in case exactOpportunityMatch stages normalizedSearch of
               Some m \<Rightarrow>
                 (Some (stage_id m),
                  emit (ExactMatchFound OpportunityStages stageName (stage_id m)) w1)
             | None \<Rightarrow>
                (case partialOpportunityMatch stages normalizedSearch of
                   Some m \<Rightarrow>
                     (Some (stage_id m),
                      emit (PartialMatchFound OpportunityStages stageName (stage_id m)) w1)
                 | None \<Rightarrow> (None, emit (NoMatchFound OpportunityStages stageName) w1)))"

text \<open>
  \<^verbatim>\<open>findApolloOpportunityStageIdByName(mappedName)\<close> for what the table gave. With no
  stage available the function returns before it looks at its argument; otherwise an
  inherited member, which is no string, makes \<^verbatim>\<open>normalizeStage\<close> throw.
\<close>

definition findMappedOpportunity ::
    "env \<Rightarrow> table_hit \<Rightarrow> world \<Rightarrow> (error + string option) \<times> world" where
  "findMappedOpportunity env hit w =
    (case hit of
       Mapped m \<Rightarrow> (let (sid, w1) = findApolloOpportunityStageIdByName env m w in (Inr sid, w1))
     | Inherited \<Rightarrow>
         (let (stages, w1) = getApolloOpportunityStages env w
          in if stages = [] then (Inr None, emit (NoStagesAvailable OpportunityStages) w1)
             else (Inl (TypeError ''stage.trim is not a function''), w1))
     | NoEntry \<Rightarrow> (Inr None, w))"

definition mapDealStageToApollo :: "env \<Rightarrow> string \<Rightarrow> world \<Rightarrow> (error + string) \<times> world" where
  "mapDealStageToApollo env attioStage w =
    (if attioStage = [] then (Inr attioStage, w)
     else
      let trimmedStage = trim attioStage
      in if looksLikeId trimmedStage
         then (Inr trimmedStage, emit (AppearsToBeId OpportunityStages trimmedStage) w)
         else
          let mappedName = tableLookup OPPORTUNITY_STAGE_NAME_MAPPING trimmedStage;
              (viaTable, w1) =
                (if hitTruthy mappedName
                 then findMappedOpportunity env mappedName
                        (emit (ManualMapping OpportunityStages trimmedStage) w)
                 else (Inr None, w))
          in case viaTable of
               Inl e \<Rightarrow> (Inl e, w1)
             | Inr found \<Rightarrow>
                (if orEmpty found \<noteq> [] then (Inr (orEmpty found), w1)
                 else
                  let normalized = normalizeStage trimmedStage;
                      normalizedMappedName =
                        tableLookup OPPORTUNITY_STAGE_NAME_MAPPING (orEmpty normalized);
                      (viaNormalized, w2) =
                        (if orEmpty normalized \<noteq> [] \<and> orEmpty normalized \<noteq> trimmedStage
                            \<and> hitTruthy normalizedMappedName
                         then findMappedOpportunity env normalizedMappedName
                                (emit (ManualMapping OpportunityStages trimmedStage) w1)
                         else (Inr None, w1))
                  in case viaNormalized of
                       Inl e \<Rightarrow> (Inl e, w2)
                     | Inr found2 \<Rightarrow>
                        (if orEmpty found2 \<noteq> [] then (Inr (orEmpty found2), w2)
                         else
                          let (direct, w3) = findApolloOpportunityStageIdByName env trimmedStage w2
                          in if orEmpty direct \<noteq> [] then (Inr (orEmpty direct), w3)
                             else (Inr trimmedStage,
                                   emit (PassThrough OpportunityStages trimmedStage) w3))))"

section \<open>More of JavaScript, for the sync modules\<close>

text \<open>\<^verbatim>\<open>a || b || ... || z\<close>: the first truthy operand, or the last one.\<close>

fun js_orList :: "json list \<Rightarrow> json" where
  "js_orList [] = JUndefined"
| "js_orList [a] = a"
| "js_orList (a # b # cs) = (if truthy a then a else js_orList (b # cs))"

text \<open>
  \<^verbatim>\<open>v[0]\<close> on a value that is not null or undefined: the first element of an array, the
  first character of a string, the member \<^verbatim>\<open>"0"\<close> of an object.
\<close>

definition index0 :: "json \<Rightarrow> json" where
  "index0 v = (case v of
      JArr xs \<Rightarrow> (case xs of [] \<Rightarrow> JUndefined | x # rest \<Rightarrow> x)
    | JStr s \<Rightarrow> (case s of [] \<Rightarrow> JUndefined | c # rest \<Rightarrow> JStr [c])
    | JObj kvs \<Rightarrow> getProp v ''0''
    | _ \<Rightarrow> JUndefined)"

text \<open>\<^verbatim>\<open>Object.keys(v).length > 0\<close> for a truthy \<^verbatim>\<open>v\<close>.\<close>

definition hasKeys :: "json \<Rightarrow> bool" where
  "hasKeys v = (case v of
      JObj kvs \<Rightarrow> kvs \<noteq> []
    | JArr xs \<Rightarrow> xs \<noteq> []
    | JStr s \<Rightarrow> s \<noteq> []
    | _ \<Rightarrow> False)"

text \<open>
  \<^verbatim>\<open>Object.keys(v)\<close> where the caller keeps only keys that contain \<^verbatim>\<open>stage\<close> or \<^verbatim>\<open>lifecycle\<close>
  or equal \<^verbatim>\<open>status\<close>: the keys of an array or a string are digit strings, which the caller
  drops, so only an object contributes.
\<close>

definition objectKeys :: "json \<Rightarrow> string list" where
  "objectKeys v = (case v of JObj kvs \<Rightarrow> map fst kvs | _ \<Rightarrow> [])"

text \<open>
  \<^verbatim>\<open>recordData.values || {}\<close> for a truthy \<^verbatim>\<open>recordData\<close>. This is the one property the
  source reads that an array answers from its prototype: \<^verbatim>\<open>values\<close> of an array is the
  iteration method, a function, of whose members the source reads \<^verbatim>\<open>name\<close> alone, the text
  \<^verbatim>\<open>values\<close>.
\<close>

definition isArray :: "json \<Rightarrow> bool" where
  "isArray v = (case v of JArr xs \<Rightarrow> True | _ \<Rightarrow> False)"

definition recordValues :: "json \<Rightarrow> json" where
  "recordValues recordData =
    (if isArray recordData then JObj [(''name'', JStr ''values'')]
     else js_or (getProp recordData ''values'') (JObj []))"

definition optJson :: "string option \<Rightarrow> json" where
  "optJson x = (case x of Some s \<Rightarrow> JStr s | None \<Rightarrow> JNull)"

section \<open>The calls to the two platforms\<close>

definition getPerson :: "env \<Rightarrow> string \<Rightarrow> error + json" where
  "getPerson env recordId =
     attioFetch env (''/v2/objects/people/records/'' @ recordId @ ''?include=attributes'')"

definition getCompany :: "env \<Rightarrow> string \<Rightarrow> error + json" where
  "getCompany env recordId =
     attioFetch env (''/v2/objects/companies/records/'' @ recordId @ ''?include=attributes'')"

definition getDeal :: "env \<Rightarrow> string \<Rightarrow> error + json" where
  "getDeal env recordId =
     attioFetch env (''/v2/objects/deals/records/'' @ recordId @ ''?include=attributes'')"

text \<open>Every call to the Apollo module is recorded, then answered by the environment.\<close>

definition searchApolloContacts ::
    "env \<Rightarrow> json \<Rightarrow> nat \<Rightarrow> world \<Rightarrow> (error + apollo_contact list) \<times> world" where
  "searchApolloContacts env q_keywords per_page w =
     (contactSearchAnswer env (length (requests w)) (SearchApolloContacts q_keywords per_page),
      issue (SearchApolloContacts q_keywords per_page) w)"

definition updateApolloContact ::
    "env \<Rightarrow> string \<Rightarrow> json \<Rightarrow> world \<Rightarrow> (error + apollo_contact) \<times> world" where
  "updateApolloContact env contactId contact w =
     (contactWriteAnswer env (length (requests w)) (UpdateApolloContact contactId contact),
      issue (UpdateApolloContact contactId contact) w)"

definition createApolloContact ::
    "env \<Rightarrow> json \<Rightarrow> world \<Rightarrow> (error + apollo_contact) \<times> world" where
  "createApolloContact env contact w =
     (contactWriteAnswer env (length (requests w)) (CreateApolloContact contact),
      issue (CreateApolloContact contact) w)"

definition searchApolloAccounts ::
    "env \<Rightarrow> json \<Rightarrow> nat \<Rightarrow> world \<Rightarrow> (error + apollo_account list) \<times> world" where
  "searchApolloAccounts env name per_page w =
     (accountSearchAnswer env (length (requests w)) (SearchApolloAccounts name per_page),
      issue (SearchApolloAccounts name per_page) w)"

definition updateApolloAccount ::
    "env \<Rightarrow> string \<Rightarrow> json \<Rightarrow> world \<Rightarrow> (error + apollo_account) \<times> world" where
  "updateApolloAccount env accountId account w =
     (accountWriteAnswer env (length (requests w)) (UpdateApolloAccount accountId account),
      issue (UpdateApolloAccount accountId account) w)"

definition createApolloAccount ::
    "env \<Rightarrow> json \<Rightarrow> world \<Rightarrow> (error + apollo_account) \<times> world" where
  "createApolloAccount env account w =
     (accountWriteAnswer env (length (requests w)) (CreateApolloAccount account),
      issue (CreateApolloAccount account) w)"

definition searchApolloOpportunities ::
    "env \<Rightarrow> apollo_request \<Rightarrow> world \<Rightarrow> (error + apollo_opportunity list) \<times> world" where
  "searchApolloOpportunities env params w =
     (opportunitySearchAnswer env (length (requests w)) params, issue params w)"

definition updateApolloOpportunity ::
    "env \<Rightarrow> string \<Rightarrow> json \<Rightarrow> world \<Rightarrow> (error + apollo_opportunity) \<times> world" where
  "updateApolloOpportunity env oppId opp w =
     (opportunityWriteAnswer env (length (requests w)) (UpdateApolloOpportunity oppId opp),
      issue (UpdateApolloOpportunity oppId opp) w)"

definition createApolloOpportunity ::
    "env \<Rightarrow> json \<Rightarrow> world \<Rightarrow> (error + apollo_opportunity) \<times> world" where
  "createApolloOpportunity env opp w =
     (opportunityWriteAnswer env (length (requests w)) (CreateApolloOpportunity opp),
      issue (CreateApolloOpportunity opp) w)"

definition getApolloOrganizationId ::
    "env \<Rightarrow> json \<Rightarrow> world \<Rightarrow> (error + string option) \<times> world" where
  "getApolloOrganizationId env recordId w =
     (organizationIdAnswer env (length (requests w)) (GetApolloOrganizationId recordId),
      issue (GetApolloOrganizationId recordId) w)"

record sync_result =
  created :: nat
  updated :: nat

section \<open>Person sync (sync-to-apollo.server.ts)\<close>

text \<open>
  The stage name reaches \<^verbatim>\<open>mapStageToApollo\<close> as whatever the record holds. A truthy value
  that is no string is first converted to the key of the table look-up, and then makes
  \<^verbatim>\<open>normalizeStage\<close> throw: at once when the table has nothing under its text, after the
  stages were fetched when the table answers with an inherited member.
\<close>

definition mapStageToApolloAny :: "env \<Rightarrow> json \<Rightarrow> world \<Rightarrow> (error + json) \<times> world" where
  "mapStageToApolloAny env attioStage w =
    (case attioStage of
       JStr s \<Rightarrow>
         (case mapStageToApollo env s w of
            (Inl e, w1) \<Rightarrow> (Inl e, w1)
          | (Inr mapped, w1) \<Rightarrow> (Inr (JStr mapped), w1))
     | _ \<Rightarrow>
        if \<not> truthy attioStage then (Inr attioStage, w)
        else
          (case js_ToString attioStage of
             Inl e \<Rightarrow> (Inl e, w)
           | Inr key \<Rightarrow>
              if hitTruthy (tableLookup STAGE_NAME_MAPPING key) then
                (case findMapped env (tableLookup STAGE_NAME_MAPPING key)
                        (emit (ManualMapping ContactStages key) w) of
                   (Inl e, w1) \<Rightarrow> (Inl e, w1)
                 | (Inr found, w1) \<Rightarrow>
                     if orEmpty found \<noteq> [] then (Inr (JStr (orEmpty found)), w1)
                     else (let (stages, w2) = getApolloStages env w1
                           in (Inl (TypeError ''stage.trim is not a function''), w2)))
              else (Inl (TypeError ''stage.trim is not a function''), w)))"

text \<open>
  \<^verbatim>\<open>validateStageMapping(attioStage, null)\<close>: it maps the stage once more and collects a
  warning, which the caller logs; only its effects and its errors matter.
\<close>

definition validateStageMapping :: "env \<Rightarrow> json \<Rightarrow> world \<Rightarrow> (error + unit) \<times> world" where
  "validateStageMapping env attioStage w =
    (if \<not> truthy attioStage then (Inr (), w)
     else case mapStageToApolloAny env attioStage w of
            (Inl e, w1) \<Rightarrow> (Inl e, w1)
          | (Inr mapped, w1) \<Rightarrow> (Inr (), w1))"

text \<open>Lines 75 and 76: the email the sync requires.\<close>

definition personEmail :: "json \<Rightarrow> json" where
  "personEmail values =
     getProp (index0 (js_or (getProp values ''email_addresses'') (JArr []))) ''email_address''"

text \<open>Lines 85 to 109: first and last name.\<close>

definition personNames :: "json \<Rightarrow> json \<times> json" where
  "personNames values =
    (case getProp values ''name'' of
       JArr (nameEntry # rest) \<Rightarrow>
         (js_or (getProp nameEntry ''first_name'') JNull,
          js_or (getProp nameEntry ''last_name'') JNull)
     | JObj kvs \<Rightarrow>
         (js_or (getProp (JObj kvs) ''first_name'') JNull,
          js_or (getProp (JObj kvs) ''last_name'') JNull)
     | _ \<Rightarrow> (JNull, JNull))"

text \<open>
  The name of a stage entry or stage object: \<^verbatim>\<open>option.title\<close> first, then \<^verbatim>\<open>title\<close>,
  \<^verbatim>\<open>name\<close>, \<^verbatim>\<open>value\<close>, \<^verbatim>\<open>label\<close>, else null (lines 178 to 189, 202 to 211, 246 and 251).
\<close>

definition stageNameOf :: "json \<Rightarrow> json" where
  "stageNameOf x = js_orList [getProp (getProp x ''option'') ''title'', getProp x ''title'',
     getProp x ''name'', getProp x ''value'', getProp x ''label'', JNull]"

definition stageNameOfData :: "json \<Rightarrow> json \<Rightarrow> json" where
  "stageNameOfData stageData otherwise =
    (case stageData of
       JArr xs \<Rightarrow> (case xs of stageEntry # rest \<Rightarrow> stageNameOf stageEntry
                              | [] \<Rightarrow> stageNameOf stageData)
     | JObj kvs \<Rightarrow> stageNameOf stageData
     | JStr s \<Rightarrow> stageData
     | _ \<Rightarrow> otherwise)"

text \<open>
  Lines 170 to 230: the name out of the stage member that was found. The branches for an
  array and for an object log the name and the identifier beside it in a template literal
  (lines 181, 188, 205 and 210), so both are converted to text.
\<close>

definition stageIdOf :: "json \<Rightarrow> json" where
  "stageIdOf x =
    (if truthy (getProp (getProp x ''option'') ''title'')
     then js_or (getProp (getProp (getProp x ''option'') ''id'') ''option_id'') JNull
     else js_orList [getProp x ''id'', getProp x ''record_id'', JNull])"

definition loggedStageName :: "json \<Rightarrow> error + json" where
  "loggedStageName x =
    (case js_ToString (stageNameOf x) of
       Inl e \<Rightarrow> Inl e
     | Inr nameText \<Rightarrow>
        (case js_ToString (stageIdOf x) of
           Inl e \<Rightarrow> Inl e
         | Inr idText \<Rightarrow> Inr (stageNameOf x)))"

definition stageNameOfFound :: "json \<Rightarrow> error + json" where
  "stageNameOfFound stageData =
    (case stageData of
       JArr xs \<Rightarrow> (case xs of stageEntry # rest \<Rightarrow> loggedStageName stageEntry
                              | [] \<Rightarrow> loggedStageName stageData)
     | JObj kvs \<Rightarrow> loggedStageName stageData
     | JStr s \<Rightarrow> Inr stageData
     | _ \<Rightarrow> Inr JNull)"

text \<open>
  Lines 235 to 260: the scan of all keys when no stage member was found. Its messages
  pass the values to the console as they are.
\<close>

fun scanStageKeys :: "json \<Rightarrow> string list \<Rightarrow> json \<Rightarrow> json" where
  "scanStageKeys values [] attioStageName = attioStageName"
| "scanStageKeys values (key # keys) attioStageName =
    (if (str_includes (toLowerCase key) ''stage'' \<or> str_includes (toLowerCase key) ''lifecycle''
          \<or> toLowerCase key = ''status'')
        \<and> truthy (getProp values key) \<and> \<not> truthy attioStageName
     then scanStageKeys values keys (stageNameOfData (getProp values key) attioStageName)
     else scanStageKeys values keys attioStageName)"

text \<open>Lines 124 to 264: the stage name of the record.\<close>

definition stageIdKey :: string where
  "stageIdKey = ''0357b938-75b6-4dc2-ab04-ff5fe6f4d9d6''"

definition extractStageName :: "json \<Rightarrow> json \<Rightarrow> error + json" where
  "extractStageName values attributes =
    (let inValues = js_orList [getProp values ''status'', getProp values ''Status'',
           getProp values ''status'', getProp values ''Status'', getProp values stageIdKey,
           getProp values ''Stage'', getProp values ''stage'', getProp values ''lifecycle_stage'',
           getProp values ''Stage'', getProp values ''stage''];
         stageData =
           (if \<not> truthy inValues \<and> hasKeys attributes
            then js_orList [getProp attributes ''status'', getProp attributes ''Status'',
                   getProp attributes ''status'', getProp attributes ''Status'',
                   getProp attributes stageIdKey, getProp attributes ''Stage'',
                   getProp attributes ''stage'']
            else inValues)
     in if truthy stageData then stageNameOfFound stageData
        else Inr (scanStageKeys values (objectKeys values) JNull))"

text \<open>Lines 268 to 279: map the stage, then validate the mapping.\<close>

definition mapAndValidateStage :: "env \<Rightarrow> json \<Rightarrow> world \<Rightarrow> (error + json) \<times> world" where
  "mapAndValidateStage env attioStage w =
    (if truthy attioStage then
       (case mapStageToApolloAny env attioStage w of
          (Inl e, w1) \<Rightarrow> (Inl e, w1)
        | (Inr apolloStage, w1) \<Rightarrow>
            (case validateStageMapping env attioStage w1 of
               (Inl e, w2) \<Rightarrow> (Inl e, w2)
             | (Inr validation, w2) \<Rightarrow> (Inr apolloStage, w2)))
     else (Inr JNull, w))"

text \<open>\<^verbatim>\<open>extractAttioAttributes\<close> of attribute-mapping.server.ts, with its URL shapes.\<close>

definition linkedinUrl :: "string \<Rightarrow> string" where
  "linkedinUrl v =
    (if startsWith v ''http'' then v
     else if startsWith v ''linkedin.com'' \<or> startsWith v ''/''
       then ''https://'' @ dropWhile (\<lambda>c. c = CHR ''/'') v
     else ''https://linkedin.com/in/'' @ v)"

definition dropAt :: "string \<Rightarrow> string" where
  "dropAt v = (case v of [] \<Rightarrow> [] | c # rest \<Rightarrow> if c = CHR ''@'' then rest else v)"

definition twitterUrl :: "string \<Rightarrow> string" where
  "twitterUrl v =
    (if startsWith v ''http'' then v
     else if startsWith v ''twitter.com'' \<or> startsWith v ''x.com'' then ''https://'' @ v
     else ''https://twitter.com/'' @ dropAt v)"

definition facebookUrl :: "string \<Rightarrow> string" where
  "facebookUrl v = (if startsWith v ''http'' then v else ''https://facebook.com/'' @ v)"

definition instagramUrl :: "string \<Rightarrow> string" where
  "instagramUrl v = (if startsWith v ''http'' then v else ''https://instagram.com/'' @ dropAt v)"

text \<open>
  One URL attribute: nothing when the member or its extracted value is falsy; a value
  that is truthy and no string has no \<^verbatim>\<open>startsWith\<close>, and the call throws.
\<close>

definition urlAttribute ::
    "json \<Rightarrow> string \<Rightarrow> (string \<Rightarrow> string) \<Rightarrow> error + (string \<times> json) list" where
  "urlAttribute member field shape =
    (if truthy member
     then (case extractAttioValue member of
             Inl e \<Rightarrow> Inl e
           | Inr extracted \<Rightarrow>
               if \<not> truthy extracted then Inr []
               else (case extracted of
                       JStr v \<Rightarrow> Inr [(field, JStr (shape v))]
                     | _ \<Rightarrow> Inl (TypeError ''startsWith is not a function'')))
     else Inr [])"

text \<open>
  The other attributes: \<^verbatim>\<open>title\<close> and \<^verbatim>\<open>bio\<close> are set to whatever the extraction gives,
  \<^verbatim>\<open>organization_name\<close> only to a truthy value, and the location is extracted and dropped.
\<close>

definition plainAttribute :: "json \<Rightarrow> string \<Rightarrow> error + (string \<times> json) list" where
  "plainAttribute member field =
    (if truthy member
     then (case extractAttioValue member of
             Inl e \<Rightarrow> Inl e
           | Inr extracted \<Rightarrow> Inr [(field, extracted)])
     else Inr [])"

definition truthyAttribute :: "json \<Rightarrow> string \<Rightarrow> error + (string \<times> json) list" where
  "truthyAttribute member field =
    (if truthy member
     then (case extractAttioValue member of
             Inl e \<Rightarrow> Inl e
           | Inr extracted \<Rightarrow> Inr (if truthy extracted then [(field, extracted)] else []))
     else Inr [])"

definition droppedAttribute :: "json \<Rightarrow> error + (string \<times> json) list" where
  "droppedAttribute member =
    (if truthy member
     then (case extractAttioValue member of
             Inl e \<Rightarrow> Inl e
           | Inr extracted \<Rightarrow> Inr [])
     else Inr [])"

fun collect :: "(error + (string \<times> json) list) list \<Rightarrow> error + (string \<times> json) list" where
  "collect [] = Inr []"
| "collect (Inl e # rest) = Inl e"
| "collect (Inr got # rest) =
     (case collect rest of Inl e \<Rightarrow> Inl e | Inr others \<Rightarrow> Inr (got @ others))"

definition extractAttioAttributes :: "json \<Rightarrow> error + (string \<times> json) list" where
  "extractAttioAttributes attioValues = collect
     [plainAttribute (getProp attioValues ''job_title'') ''title'',
      truthyAttribute (getProp attioValues ''company'') ''organization_name'',
      urlAttribute (getProp attioValues ''linkedin'') ''linkedin_url'' linkedinUrl,
      urlAttribute (getProp attioValues ''twitter'') ''twitter_url'' twitterUrl,
      urlAttribute (getProp attioValues ''facebook'') ''facebook_url'' facebookUrl,
      urlAttribute (getProp attioValues ''instagram'') ''instagram_url'' instagramUrl,
      plainAttribute (getProp attioValues ''description'') ''bio'',
      droppedAttribute (getProp attioValues ''primary_location'')]"

text \<open>The two payloads (lines 340 to 386 and 438 to 451).\<close>

definition additional :: "(string \<times> json) list \<Rightarrow> string \<Rightarrow> json" where
  "additional additionalAttributes field =
     (case map_of additionalAttributes field of Some v \<Rightarrow> v | None \<Rightarrow> JUndefined)"

definition additionalFields :: "string list" where
  "additionalFields = [''title'', ''organization_name'', ''linkedin_url'', ''twitter_url'',
     ''facebook_url'', ''instagram_url'', ''bio'']"

definition contactUpdateData ::
    "json \<Rightarrow> json \<Rightarrow> json \<Rightarrow> json \<Rightarrow> (string \<times> json) list \<Rightarrow> json" where
  "contactUpdateData email firstName lastName apolloStage additionalAttributes = JObj
     ([(''email'', email), (''first_name'', firstName), (''last_name'', lastName)]
      @ (if \<not> nullish apolloStage \<and> apolloStage \<noteq> JStr [] then [(''stage'', apolloStage)] else [])
      @ concat (map (\<lambda>field. if nullish (additional additionalAttributes field) then []
                               else [(field, additional additionalAttributes field)])
                 additionalFields))"

definition contactCreateData ::
    "json \<Rightarrow> json \<Rightarrow> json \<Rightarrow> json \<Rightarrow> (string \<times> json) list \<Rightarrow> json" where
  "contactCreateData email firstName lastName apolloStage additionalAttributes = JObj
     ([(''email'', email), (''first_name'', firstName), (''last_name'', lastName),
       (''stage'', apolloStage)]
      @ map (\<lambda>field. (field, js_or (additional additionalAttributes field) JNull))
          additionalFields)"

text \<open>Lines 294 to 461: search by email, then update the first result or create.\<close>

definition pushContact ::
    "env \<Rightarrow> json \<Rightarrow> json \<Rightarrow> json \<Rightarrow> json \<Rightarrow> (string \<times> json) list \<Rightarrow> world
     \<Rightarrow> (error + sync_result) \<times> world" where
  "pushContact env email firstName lastName apolloStage additionalAttributes w =
    (case searchApolloContacts env email 1 w of
       (Inl e, w1) \<Rightarrow> (Inl e, w1)
     | (Inr apolloContacts, w1) \<Rightarrow>
        (case apolloContacts of
           existingContact # rest \<Rightarrow>
            (if orEmpty (contact_id existingContact) = []
             then (Inl (Error ''Found Apollo contact but missing ID''), w1)
             else
              case updateApolloContact env (orEmpty (contact_id existingContact))
                     (contactUpdateData email firstName lastName apolloStage additionalAttributes)
                     w1 of
                (Inl e, w2) \<Rightarrow> (Inl e, w2)
              | (Inr updatedContact, w2) \<Rightarrow>
                 (case searchApolloContacts env email 1 w2 of
                    (Inl e, w3) \<Rightarrow> (Inl e, w3)
                  | (Inr verifyContacts, w3) \<Rightarrow> (Inr \<lparr>created = 0, updated = 1\<rparr>, w3)))
         | [] \<Rightarrow>
            (case createApolloContact env
                    (contactCreateData email firstName lastName apolloStage additionalAttributes)
                    w1 of
               (Inl e, w2) \<Rightarrow> (Inl e, w2)
             | (Inr newContact, w2) \<Rightarrow> (Inr \<lparr>created = 1, updated = 0\<rparr>, w2))))"

text \<open>
  The whole sync. Line 41 logs \<^verbatim>\<open>JSON.stringify(values, null, 2).substring(0, 5000)\<close>; for a
  function \<^verbatim>\<open>JSON.stringify\<close> is undefined, so a record whose \<^verbatim>\<open>data\<close> is an array ends there
  with a type error. Line 295 puts the email into a template literal before the search.
  The waits of the source (\<^verbatim>\<open>setTimeout\<close>) are not modelled.
\<close>

definition syncToApollo :: "env \<Rightarrow> string \<Rightarrow> world \<Rightarrow> (error + sync_result) \<times> world" where
  "syncToApollo env recordId w =
    (case getPerson env recordId of
       Inl e \<Rightarrow> (Inl e, w)
     | Inr attioRecord \<Rightarrow>
        if \<not> truthy (getProp attioRecord ''data'')
        then (Inl (Error (''Failed to fetch Attio record '' @ recordId)), w)
        else
          let recordData = getProp attioRecord ''data'';
              values = recordValues recordData;
              attributes = js_orList [getProp recordData ''attributes'',
                             getProp recordData ''attribute_values'', JObj []];
              email = personEmail values
          in if isArray recordData
             then (Inl (TypeError ''Cannot read properties of undefined (reading 'substring')''), w)
             else if \<not> truthy email
             then (Inl (Error (''No email address found for record '' @ recordId
                                @ ''. Email is required for syncing.'')), w)
             else
               case extractStageName values attributes of
                 Inl e \<Rightarrow> (Inl e, w)
               | Inr attioStage \<Rightarrow>
                  (case mapAndValidateStage env attioStage w of
                     (Inl e, w1) \<Rightarrow> (Inl e, w1)
                   | (Inr apolloStage, w1) \<Rightarrow>
                      (case extractAttioAttributes values of
                         Inl e \<Rightarrow> (Inl e, w1)
                       | Inr additionalAttributes \<Rightarrow>
                          (case js_ToString email of
                             Inl e \<Rightarrow> (Inl e, w1)
                           | Inr emailText \<Rightarrow>
                               pushContact env email (fst (personNames values))
                                 (snd (personNames values)) apolloStage additionalAttributes w1))))"

section \<open>The record-updated event (record.updated.event.ts)\<close>

text \<open>
  The handler returns nothing. It syncs people records only; the \<^verbatim>\<open>catch\<close> block logs
  the error and ends normally. The event is the object of two strings that the signature
  declares, and what the sync throws is an error object (its modules throw nothing else),
  whose message the \<^verbatim>\<open>catch\<close> block reads.
\<close>

definition onRecordUpdated :: "env \<Rightarrow> string \<Rightarrow> string \<Rightarrow> world \<Rightarrow> (error + unit) \<times> world" where
  "onRecordUpdated env object recordId w =
    (if object \<noteq> ''people'' then (Inr (), w)
     else case syncToApollo env recordId w of
            (Inr result, w1) \<Rightarrow> (Inr (), emit (SyncSucceeded recordId) w1)
          | (Inl e, w1) \<Rightarrow> (Inr (), emit (SyncFailed recordId e) w1))"

section \<open>Matching by name (company and deal sync)\<close>

text \<open>
  \<^verbatim>\<open>x.name && x.name.toLowerCase().trim() === wanted.toLowerCase().trim()\<close>. The wanted
  name comes out of the Attio record; when it is truthy and no string, the comparison
  throws at the first candidate that has a name.
\<close>

definition sameName :: "string option \<Rightarrow> string \<Rightarrow> bool" where
  "sameName candidate wanted =
     (orEmpty candidate \<noteq> [] \<and>
      trim (toLowerCase (orEmpty candidate)) = trim (toLowerCase wanted))"

definition findByName :: "json \<Rightarrow> ('a \<Rightarrow> string option) \<Rightarrow> 'a list \<Rightarrow> error + 'a option" where
  "findByName wanted nameOf xs =
    (case wanted of
       JStr s \<Rightarrow> Inr (List.find (\<lambda>x. sameName (nameOf x) s) xs)
     | _ \<Rightarrow> if list_ex (\<lambda>x. orEmpty (nameOf x) \<noteq> []) xs
            then Inl (TypeError ''toLowerCase is not a function'')
            else Inr None)"

section \<open>Company sync (sync-company-to-apollo.server.ts)\<close>

text \<open>Lines 31 to 40: the company name.\<close>

definition companyNameOf :: "json \<Rightarrow> json" where
  "companyNameOf values =
    (case getProp values ''name'' of
       JArr xs \<Rightarrow> (case xs of
                    e # rest \<Rightarrow> js_orList [getProp e ''name'', getProp e ''value'', JNull]
                  | [] \<Rightarrow> JNull)
     | JStr s \<Rightarrow> JStr s
     | JObj kvs \<Rightarrow> js_orList [getProp (JObj kvs) ''name'', getProp (JObj kvs) ''value'', JNull]
     | _ \<Rightarrow> JNull)"

text \<open>
  The two payloads (lines 190 to 240 and 259 to 272). \<^verbatim>\<open>attrs\<close> are the members besides
  the name in the order of the create call, as extracted: the update sends those that are
  truthy, and the number of employees when it is not null.
\<close>

definition companyUpdateData :: "json \<Rightarrow> (string \<times> json) list \<Rightarrow> json" where
  "companyUpdateData companyName attrs = JObj
     ((''name'', companyName) #
      filter (\<lambda>(field, v). if field = ''estimated_num_employees'' then v \<noteq> JNull
                               else truthy v) attrs)"

definition companyCreateData :: "json \<Rightarrow> (string \<times> json) list \<Rightarrow> json" where
  "companyCreateData companyName attrs = JObj ((''name'', companyName) # attrs)"

text \<open>Lines 178 to 280: update the account found, or create one.\<close>

definition pushAccount ::
    "env \<Rightarrow> json \<Rightarrow> (string \<times> json) list \<Rightarrow> apollo_account list \<Rightarrow> world
     \<Rightarrow> (error + sync_result) \<times> world" where
  "pushAccount env companyName attrs apolloAccounts w =
    (case apolloAccounts of
       bestMatch # rest \<Rightarrow>
        (if orEmpty (account_id bestMatch) \<noteq> [] then
           (case updateApolloAccount env (orEmpty (account_id bestMatch))
                   (companyUpdateData companyName attrs) w of
              (Inl e, w1) \<Rightarrow> (Inl e, w1)
            | (Inr updatedAccount, w1) \<Rightarrow> (Inr \<lparr>created = 0, updated = 1\<rparr>, w1))
         else
           (case createApolloAccount env (companyCreateData companyName attrs) w of
              (Inl e, w1) \<Rightarrow> (Inl e, w1)
            | (Inr newAccount, w1) \<Rightarrow> (Inr \<lparr>created = 1, updated = 0\<rparr>, w1)))
     | [] \<Rightarrow>
        (case createApolloAccount env (companyCreateData companyName attrs) w of
           (Inl e, w1) \<Rightarrow> (Inl e, w1)
         | (Inr newAccount, w1) \<Rightarrow> (Inr \<lparr>created = 1, updated = 0\<rparr>, w1)))"

text \<open>
  The whole sync. The domain of the company (lines 49 to 90), the extraction of the other
  attributes (lines 92 to 104, with the module's own \<^verbatim>\<open>extractAttioValue\<close> and
  \<^verbatim>\<open>extractNumberValue\<close>) and the test that an account has that domain (lines 151 to 170)
  rest on regular expressions, on the URL parser and on the number parser of the run time;
  they are parameters of the environment. The first two throw on a value of the wrong
  dynamic type. Line 121 puts the name into a template literal before the search.
\<close>

definition syncCompanyToApollo ::
    "env \<Rightarrow> string \<Rightarrow> world \<Rightarrow> (error + sync_result) \<times> world" where
  "syncCompanyToApollo env recordId w =
    (case getCompany env recordId of
       Inl e \<Rightarrow> (Inl e, w)
     | Inr attioRecord \<Rightarrow>
        if \<not> truthy (getProp attioRecord ''data'')
        then (Inl (Error (''Failed to fetch Attio company record '' @ recordId)), w)
        else
          let values = recordValues (getProp attioRecord ''data'');
              companyName = companyNameOf values
          in if \<not> truthy companyName
             then (Inl (Error (''No company name found for record '' @ recordId
                                @ ''. Name is required for syncing.'')), w)
             else
              case companyDomain env values of
                Inl e \<Rightarrow> (Inl e, w)
              | Inr domain \<Rightarrow>
                 (case companyAttributes env values of
                    Inl e \<Rightarrow> (Inl e, w)
                  | Inr attrs \<Rightarrow>
                 (case js_ToString companyName of
                    Inl e \<Rightarrow> (Inl e, w)
                  | Inr nameText \<Rightarrow>
                 (case searchApolloAccounts env companyName 50 w of
                    (Inl e, w1) \<Rightarrow> (Inl e, w1)
                  | (Inr found, w1) \<Rightarrow>
                     (case findByName companyName account_name found of
                        Inl e \<Rightarrow> (Inl e, w1)
                      | Inr (Some exactNameMatch) \<Rightarrow>
                          pushAccount env companyName attrs [exactNameMatch] w1
                      | Inr None \<Rightarrow>
                         (if orEmpty domain \<noteq> [] then
                            (case searchApolloAccounts env companyName 50 w1 of
                               (Inl e, w2) \<Rightarrow> (Inl e, w2)
                             | (Inr domainResults, w2) \<Rightarrow>
                                (case List.find (domainMatches env (orEmpty domain)) domainResults of
                                   Some exactDomainMatch \<Rightarrow>
                                     pushAccount env companyName attrs [exactDomainMatch] w2
                                 | None \<Rightarrow> pushAccount env companyName attrs [] w2))
                          else pushAccount env companyName attrs [] w1))))))"

section \<open>Deal sync (sync-deal-to-apollo.server.ts)\<close>

text \<open>
  The module's own \<^verbatim>\<open>extractAttioValue\<close>. Every branch returns \<^verbatim>\<open>String(...).trim()\<close>, the
  text of a number, or null.
\<close>

definition trimmedText :: "json \<Rightarrow> error + string option" where
  "trimmedText v = (case js_ToString v of Inl e \<Rightarrow> Inl e | Inr s \<Rightarrow> Inr (Some (trim s)))"

definition extractAttioValue_deal :: "json \<Rightarrow> error + string option" where
  "extractAttioValue_deal attioData =
    (let fromEntry = (\<lambda>entry.
           if truthy (getProp (getProp entry ''option'') ''title'')
             then trimmedText (getProp (getProp entry ''option'') ''title'')
           else if \<not> nullish (getProp entry ''value'')
             then trimmedText (getProp entry ''value'')
           else if truthy (getProp entry ''title'')
             then trimmedText (getProp entry ''title'')
           else if truthy (getProp entry ''name'')
             then trimmedText (getProp entry ''name'')
           else if truthy (getProp entry ''label'')
             then trimmedText (getProp entry ''label'')
           else Inr None)
     in if \<not> truthy attioData then Inr None
        else case attioData of
               JArr xs \<Rightarrow> (case xs of entry # rest \<Rightarrow> fromEntry entry | [] \<Rightarrow> Inr None)
             | JStr s \<Rightarrow> Inr (Some (trim s))
             | JNum r \<Rightarrow> Inr (Some r)
             | JObj kvs \<Rightarrow> fromEntry attioData
             | _ \<Rightarrow> Inr None)"

text \<open>Lines 66 to 75: the deal name.\<close>

definition dealNameOf :: "json \<Rightarrow> json" where
  "dealNameOf values =
    (let nameData = js_or (getProp values ''name'') (getProp values ''title'')
     in case nameData of
          JArr xs \<Rightarrow> (case xs of
                       e # rest \<Rightarrow> js_orList [getProp e ''name'', getProp e ''value'',
                                     getProp e ''title'', JNull]
                     | [] \<Rightarrow> JNull)
        | JStr s \<Rightarrow> JStr s
        | JObj kvs \<Rightarrow> js_orList [getProp nameData ''name'', getProp nameData ''value'',
                        getProp nameData ''title'', JNull]
        | _ \<Rightarrow> JNull)"

text \<open>Lines 103 to 134: the stage name, trimmed.\<close>

definition dealStageOfEntry :: "json \<Rightarrow> error + string option" where
  "dealStageOfEntry x =
    (if truthy (getProp (getProp x ''status'') ''title'')
       then trimmedText (getProp (getProp x ''status'') ''title'')
     else if truthy (getProp (getProp x ''option'') ''title'')
       then trimmedText (getProp (getProp x ''option'') ''title'')
     else if truthy (getProp x ''value'')
       then trimmedText (getProp x ''value'')
     else Inr None)"

definition dealStageOf :: "json \<Rightarrow> error + string option" where
  "dealStageOf values =
    (case getProp values ''stage'' of
       JArr xs \<Rightarrow> (case xs of stageEntry # rest \<Rightarrow> dealStageOfEntry stageEntry
                              | [] \<Rightarrow> Inr None)
     | JStr s \<Rightarrow> Inr (if s = [] then None else Some (trim s))
     | JObj kvs \<Rightarrow> dealStageOfEntry (JObj kvs)
     | _ \<Rightarrow> Inr None)"

text \<open>Lines 163 to 179: the record id and the name of the associated company.\<close>

definition dealCompanyOf :: "json \<Rightarrow> json \<times> json" where
  "dealCompanyOf values =
    (let companyData = js_orList [getProp values ''company'', getProp values ''organization'',
                                   getProp values ''associated_company''];
         fromCompany = (\<lambda>company.
           (js_orList [getProp (getProp company ''id'') ''record_id'', getProp company ''id'', JNull],
            js_orList [getProp company ''name'', getProp company ''title'',
                       getProp company ''value'', JNull]))
     in case companyData of
          JArr xs \<Rightarrow> (case xs of company # rest \<Rightarrow> fromCompany company
                                 | [] \<Rightarrow> fromCompany companyData)
        | JObj kvs \<Rightarrow> fromCompany companyData
        | JStr s \<Rightarrow> (JNull, if s = [] then JNull else companyData)
        | _ \<Rightarrow> (JNull, JNull))"

text \<open>
  Lines 182 to 196: the Apollo account of the company, looked up by another module inside
  a \<^verbatim>\<open>try\<close>; a failure leaves the account id null. The message of line 183, a template
  literal with the record id of the company, stands before the \<^verbatim>\<open>try\<close>.
\<close>

definition lookupAccountId ::
    "env \<Rightarrow> json \<Rightarrow> world \<Rightarrow> (error + string option) \<times> world" where
  "lookupAccountId env attioCompanyRecordId w =
    (if truthy attioCompanyRecordId then
       (case js_ToString attioCompanyRecordId of
          Inl e \<Rightarrow> (Inl e, w)
        | Inr idText \<Rightarrow>
           (case getApolloOrganizationId env attioCompanyRecordId w of
              (Inl e, w1) \<Rightarrow> (Inr None, w1)
            | (Inr accountId, w1) \<Rightarrow> (Inr accountId, w1)))
     else (Inr None, w))"

text \<open>Lines 208 to 220: search by name, and by keywords when that finds nothing.\<close>

definition searchDeal ::
    "env \<Rightarrow> json \<Rightarrow> world \<Rightarrow> (error + apollo_opportunity list) \<times> world" where
  "searchDeal env dealName w =
    (case searchApolloOpportunities env (SearchApolloOpportunitiesByName dealName 20) w of
       (Inl e, w1) \<Rightarrow> (Inl e, w1)
     | (Inr apolloOpps, w1) \<Rightarrow>
        (if apolloOpps = []
         then searchApolloOpportunities env (SearchApolloOpportunitiesByKeywords dealName 20) w1
         else (Inr apolloOpps, w1)))"

text \<open>
  Lines 226 to 257: the record-id marker in the description first, then the name. The
  account test inside the name match changes nothing: it ends in \<^verbatim>\<open>return true\<close> on both
  of its paths.
\<close>

definition attioRecordIdMarker :: "string \<Rightarrow> string" where
  "attioRecordIdMarker recordId = ''[Attio Record ID: '' @ recordId @ '']''"

definition matchByMarker :: "string \<Rightarrow> apollo_opportunity list \<Rightarrow> apollo_opportunity option" where
  "matchByMarker recordId apolloOpps =
     List.find (\<lambda>opp. orEmpty (opp_description opp) \<noteq> [] \<and>
                       str_includes (orEmpty (opp_description opp)) (attioRecordIdMarker recordId))
       apolloOpps"

definition matchOpportunity ::
    "json \<Rightarrow> string \<Rightarrow> apollo_opportunity list \<Rightarrow> error + apollo_opportunity option" where
  "matchOpportunity dealName recordId apolloOpps =
    (case matchByMarker recordId apolloOpps of
       Some byMarker \<Rightarrow> Inr (Some byMarker)
     | None \<Rightarrow> findByName dealName opp_name apolloOpps)"

text \<open>Lines 314 to 339: the stage of the update, mapped inside a \<^verbatim>\<open>try\<close>.\<close>

definition dealStageFields ::
    "env \<Rightarrow> string option \<Rightarrow> world \<Rightarrow> (string \<times> json) list \<times> world" where
  "dealStageFields env attioStage w =
    (if orEmpty attioStage = [] then ([], w)
     else case mapDealStageToApollo env (orEmpty attioStage) w of
            (Inl e, w1) \<Rightarrow> ([(''stage_name'', JStr (orEmpty attioStage))], w1)
          | (Inr stageId, w1) \<Rightarrow>
              (if stageId \<noteq> [] \<and> looksLikeId stageId
               then ([(''stage_id'', JStr stageId)], w1)
               else ([(''stage_name'', JStr (orEmpty attioStage))], w1)))"

text \<open>Lines 357 to 371 and 388 to 391: the description that is sent.\<close>

definition paragraphBreak :: string where
  "paragraphBreak = [CHR 0x0A, CHR 0x0A]"

definition updateDescription :: "string option \<Rightarrow> string \<Rightarrow> string" where
  "updateDescription description recordId =
    (if orEmpty description \<noteq> [] then
       (if \<not> str_includes (orEmpty description) (attioRecordIdMarker recordId)
        then orEmpty description @ paragraphBreak @ attioRecordIdMarker recordId
        else orEmpty description)
     else attioRecordIdMarker recordId)"

definition createDescription :: "string option \<Rightarrow> string \<Rightarrow> string" where
  "createDescription description recordId =
    (if orEmpty description \<noteq> []
     then orEmpty description @ paragraphBreak @ attioRecordIdMarker recordId
     else attioRecordIdMarker recordId)"

text \<open>
  What the sync reads from the record besides the name, in the order of lines 99 to 179.
  \<^verbatim>\<open>extractNumberValue\<close> parses with the run time's \<^verbatim>\<open>Number\<close>, which throws as the
  conversion to text does; it is a parameter of the environment.
\<close>

record deal_attributes =
  attr_amount :: json
  attr_attioStage :: "string option"
  attr_probability :: json
  attr_closeDate :: "string option"
  attr_description :: "string option"
  attr_accountName :: json

definition dealAttributesOf :: "env \<Rightarrow> json \<Rightarrow> error + deal_attributes" where
  "dealAttributesOf env values =
    (case extractNumberValue env (js_orList [getProp values ''amount'',
            getProp values ''value'', getProp values ''deal_value'',
            getProp values ''total_value'', getProp values ''deal_amount'']) of
       Inl e \<Rightarrow> Inl e
     | Inr amount \<Rightarrow>
    (case dealStageOf values of
       Inl e \<Rightarrow> Inl e
     | Inr attioStage \<Rightarrow>
    (case extractNumberValue env (js_orList [getProp values ''probability'',
            getProp values ''close_probability'', getProp values ''win_probability'',
            getProp values ''probability_percent'']) of
       Inl e \<Rightarrow> Inl e
     | Inr probability \<Rightarrow>
    (case extractAttioValue_deal (js_orList [getProp values ''close_date'',
            getProp values ''expected_close_date'', getProp values ''closed_date'',
            getProp values ''target_close_date'', getProp values ''closeDate'']) of
       Inl e \<Rightarrow> Inl e
     | Inr closeDate \<Rightarrow>
    (case extractAttioValue_deal (js_orList [getProp values ''description'',
            getProp values ''notes'', getProp values ''deal_notes'',
            getProp values ''summary'']) of
       Inl e \<Rightarrow> Inl e
     | Inr description \<Rightarrow>
         Inr \<lparr> attr_amount = amount, attr_attioStage = attioStage,
               attr_probability = probability, attr_closeDate = closeDate,
               attr_description = description,
               attr_accountName = snd (dealCompanyOf values) \<rparr>)))))"

text \<open>The two payloads (lines 277 to 371 and 393 to 402).\<close>

definition dealUpdateData ::
    "json \<Rightarrow> string option \<Rightarrow> deal_attributes \<Rightarrow> (string \<times> json) list \<Rightarrow> string \<Rightarrow> json" where
  "dealUpdateData dealName accountId attrs stageFields recordId = JObj
     ([(''name'', dealName)]
      @ (if orEmpty accountId \<noteq> [] then [(''account_id'', JStr (orEmpty accountId))]
         else if truthy (attr_accountName attrs) then [(''account_name'', attr_accountName attrs)]
         else [])
      @ (if nullish (attr_amount attrs) then [] else [(''amount'', attr_amount attrs)])
      @ stageFields
      @ (if nullish (attr_probability attrs) then [] else [(''probability'', attr_probability attrs)])
      @ (if orEmpty (attr_closeDate attrs) \<noteq> [] then [(''close_date'', JStr (orEmpty (attr_closeDate attrs)))]
         else [])
      @ [(''description'', JStr (updateDescription (attr_description attrs) recordId))])"

definition dealCreateData ::
    "json \<Rightarrow> string option \<Rightarrow> deal_attributes \<Rightarrow> string \<Rightarrow> json" where
  "dealCreateData dealName accountId attrs recordId = JObj
     [(''name'', dealName),
      (''account_id'', optJson accountId),
      (''account_name'', attr_accountName attrs),
      (''amount'', attr_amount attrs),
      (''stage_name'', if orEmpty (attr_attioStage attrs) \<noteq> [] then JStr (orEmpty (attr_attioStage attrs))
                       else JUndefined),
      (''probability'', attr_probability attrs),
      (''close_date'', optJson (attr_closeDate attrs)),
      (''description'', JStr (createDescription (attr_description attrs) recordId))]"

text \<open>
  Lines 266 to 410: update the match, or create. On the update path line 273 puts the
  account name into a template literal when there is no account id.
\<close>

definition pushOpportunity ::
    "env \<Rightarrow> string \<Rightarrow> json \<Rightarrow> string option \<Rightarrow> deal_attributes \<Rightarrow> apollo_opportunity option
     \<Rightarrow> world \<Rightarrow> (error + sync_result) \<times> world" where
  "pushOpportunity env recordId dealName accountId attrs matchedOpp w =
    (case matchedOpp of
       Some existingOpp \<Rightarrow>
        (if orEmpty (opp_id existingOpp) = []
         then (Inl (Error ''Found Apollo opportunity but missing ID''), w)
         else if orEmpty accountId = [] \<and> truthy (attr_accountName attrs)
                 \<and> \<not> printable (attr_accountName attrs)
         then (Inl (TypeError ''Cannot convert object to primitive value''), w)
         else
          let (stageFields, w1) = dealStageFields env (attr_attioStage attrs) w
          in case updateApolloOpportunity env (orEmpty (opp_id existingOpp))
                    (dealUpdateData dealName accountId attrs stageFields recordId) w1 of
               (Inl e, w2) \<Rightarrow> (Inl e, w2)
             | (Inr updatedOpp, w2) \<Rightarrow> (Inr \<lparr>created = 0, updated = 1\<rparr>, w2))
     | None \<Rightarrow>
        (case createApolloOpportunity env (dealCreateData dealName accountId attrs recordId) w of
           (Inl e, w1) \<Rightarrow> (Inl e, w1)
         | (Inr newOpp, w1) \<Rightarrow> (Inr \<lparr>created = 1, updated = 0\<rparr>, w1)))"

definition syncDealToApollo ::
    "env \<Rightarrow> string \<Rightarrow> world \<Rightarrow> (error + sync_result) \<times> world" where
  "syncDealToApollo env recordId w =
    (case getDeal env recordId of
       Inl e \<Rightarrow> (Inl e, w)
     | Inr attioRecord \<Rightarrow>
        if \<not> truthy (getProp attioRecord ''data'')
        then (Inl (Error (''Failed to fetch Attio deal record '' @ recordId)), w)
        else
          let values = recordValues (getProp attioRecord ''data'');
              dealName = dealNameOf values
          in if \<not> truthy dealName
             then (Inl (Error (''No deal name found for record '' @ recordId
                                @ ''. Name is required for syncing.'')), w)
             else
              case dealAttributesOf env values of
                Inl e \<Rightarrow> (Inl e, w)
              | Inr attrs \<Rightarrow>
              (case lookupAccountId env (fst (dealCompanyOf values)) w of
                 (Inl e, w1) \<Rightarrow> (Inl e, w1)
               | (Inr accountId, w1) \<Rightarrow>
              (case js_ToString dealName of
                 Inl e \<Rightarrow> (Inl e, w1)
               | Inr nameText \<Rightarrow>
              (case searchDeal env dealName w1 of
                 (Inl e, w2) \<Rightarrow> (Inl e, w2)
               | (Inr apolloOpps, w2) \<Rightarrow>
                  (case matchOpportunity dealName recordId apolloOpps of
                     Inl e \<Rightarrow> (Inl e, w2)
                   | Inr matchedOpp \<Rightarrow>
                       pushOpportunity env recordId dealName accountId attrs matchedOpp w2)))))"

section \<open>Vocabulary of the theorems\<close>

text \<open>The state after some more messages.\<close>

definition logged :: "log_event list \<Rightarrow> world \<Rightarrow> world" where
  "logged es w = w\<lparr>console := console w @ es\<rparr>"





text \<open>
  The calls made between two states, and the calls among them that write to Apollo.
\<close>

definition newRequests :: "world \<Rightarrow> world \<Rightarrow> apollo_request list" where
  "newRequests w w' = drop (length (requests w)) (requests w')"

fun isWrite :: "apollo_request \<Rightarrow> bool" where
  "isWrite (CreateApolloContact c) = True"
| "isWrite (UpdateApolloContact i c) = True"
| "isWrite (CreateApolloAccount a) = True"
| "isWrite (UpdateApolloAccount i a) = True"
| "isWrite (CreateApolloOpportunity opp) = True"
| "isWrite (UpdateApolloOpportunity i opp) = True"
| "isWrite r = False"

definition writes :: "world \<Rightarrow> world \<Rightarrow> apollo_request list" where
  "writes w w' = filter isWrite (newRequests w w')"

text \<open>Between two states only read calls were made.\<close>

definition readsOnly :: "world \<Rightarrow> world \<Rightarrow> bool" where
  "readsOnly w w' = (\<exists>xs. requests w' = requests w @ xs \<and> filter isWrite xs = [])"

text \<open>The two tests of the deal match, on one search result.\<close>

definition hasMarker :: "string \<Rightarrow> apollo_opportunity \<Rightarrow> bool" where
  "hasMarker recordId opp =
     (orEmpty (opp_description opp) \<noteq> [] \<and>
      str_includes (orEmpty (opp_description opp)) (attioRecordIdMarker recordId))"





text \<open>How often a text occurs in another (every starting position counts).\<close>

fun occurrences :: "string \<Rightarrow> string \<Rightarrow> nat" where
  "occurrences [] m = (if m = [] then 1 else 0)"
| "occurrences (x # xs) m = (if startsWith (x # xs) m then 1 else 0) + occurrences xs m"

section \<open>The claims as the specification words them\<close>

text \<open>
  The specification's reading of value extraction: the first non-empty candidate in the
  order tagged option title, value, name, title, label, taken from the first entry of an
  array or from an object; a scalar is its own text.
\<close>

definition spec_candidates :: "json \<Rightarrow> json list" where
  "spec_candidates e = [getProp (getProp e ''option'') ''title'', getProp e ''value'',
     getProp e ''name'', getProp e ''title'', getProp e ''label'']"

definition firstNonEmpty :: "json list \<Rightarrow> json" where
  "firstNonEmpty cs = (case filter truthy cs of [] \<Rightarrow> JNull | c # rest \<Rightarrow> JStr (js_String c))"

definition spec_extractAttioValue :: "json \<Rightarrow> json" where
  "spec_extractAttioValue v = (case v of
      JArr (e # es) \<Rightarrow> firstNonEmpty (spec_candidates e)
    | JObj kvs \<Rightarrow> firstNonEmpty (spec_candidates v)
    | JStr s \<Rightarrow> (if s = [] then JNull else JStr s)
    | JNum r \<Rightarrow> JStr r
    | _ \<Rightarrow> JNull)"

text \<open>
  The amended reading of value extraction, for every JavaScript value. A priority list
  gives each candidate with the test that makes it count; the first that counts is the
  result, and null if none counts.
\<close>

fun firstCounting :: "(bool \<times> (error + json)) list \<Rightarrow> error + json" where
  "firstCounting [] = Inr JNull"
| "firstCounting ((counts, result) # cs) = (if counts then result else firstCounting cs)"

text \<open>
  The person name of an entry: \<^verbatim>\<open>full_name\<close>; else first and last name with a blank
  between them, trimmed; else the one of the two that is there.
\<close>

definition personNameCandidate :: "json \<Rightarrow> error + json" where
  "personNameCandidate e = firstCounting
     [(truthy (getProp e ''full_name''), stringOf (getProp e ''full_name'')),
      (truthy (getProp e ''first_name'') \<and> truthy (getProp e ''last_name''),
         fullName (getProp e ''first_name'') (getProp e ''last_name'')),
      (truthy (getProp e ''first_name''), stringOf (getProp e ''first_name'')),
      (truthy (getProp e ''last_name''), stringOf (getProp e ''last_name''))]"

text \<open>
  The candidates of the first entry of an array, each converted to text: the title of the
  tagged option, the value (which counts unless it is null or undefined), the person
  name, the email address, the phone number, then title before name, then label.
\<close>

definition entryCandidates :: "json \<Rightarrow> (bool \<times> (error + json)) list" where
  "entryCandidates e =
     [(truthy (getProp (getProp e ''option'') ''title''),
         stringOf (getProp (getProp e ''option'') ''title'')),
      (\<not> nullish (getProp e ''value''), stringOf (getProp e ''value'')),
      (truthy (getProp e ''first_name'') \<or> truthy (getProp e ''last_name''),
         personNameCandidate e),
      (truthy (getProp e ''email_address''), stringOf (getProp e ''email_address'')),
      (truthy (getProp e ''phone_number''), stringOf (getProp e ''phone_number'')),
      (truthy (getProp e ''title''), stringOf (getProp e ''title'')),
      (truthy (getProp e ''name''), stringOf (getProp e ''name'')),
      (truthy (getProp e ''label''), stringOf (getProp e ''label''))]"

text \<open>The candidates of an object: a member counts when it is a string.\<close>

definition objectCandidates :: "json \<Rightarrow> (bool \<times> (error + json)) list" where
  "objectCandidates v =
     [(isString (getProp v ''value''), Inr (getProp v ''value'')),
      (isString (getProp v ''title''), Inr (getProp v ''title'')),
      (isString (getProp v ''name''), Inr (getProp v ''name'')),
      (isString (getProp v ''label''), Inr (getProp v ''label''))]"

text \<open>
  Null for a falsy value, for \<^verbatim>\<open>true\<close> and for an empty array; a string as it is and a
  number as its text; the first candidate that counts for a non-empty array and for an
  object.
\<close>

definition amended_extractAttioValue :: "json \<Rightarrow> error + json" where
  "amended_extractAttioValue v =
    (case v of
       JArr xs \<Rightarrow> (case xs of e # es \<Rightarrow> firstCounting (entryCandidates e) | [] \<Rightarrow> Inr JNull)
     | JObj kvs \<Rightarrow> firstCounting (objectCandidates v)
     | JStr s \<Rightarrow> Inr (if s = [] then JNull else JStr s)
     | JNum r \<Rightarrow> Inr (if truthy (JNum r) then JStr r else JNull)
     | _ \<Rightarrow> Inr JNull)"

text \<open>
  The call throws or gives a value of the declared type \<^verbatim>\<open>string | null\<close>: all calls but
  those that end on the fall-back line with a member that is no string.
\<close>

definition declaredType :: "error + json \<Rightarrow> bool" where
  "declaredType r = (case r of Inl e \<Rightarrow> True | Inr x \<Rightarrow> isStringOrNull x)"

section \<open>Inputs for the examples\<close>

text \<open>An environment in which every call fails, and a world whose caches hold a stage list.\<close>

definition offlineEnv :: env where
  "offlineEnv = \<lparr> attioFetch = (\<lambda>endpoint. Inl (Error ''offline'')),
     contactStagesAnswer = (\<lambda>n. Inl (Error ''offline'')),
     opportunityStagesAnswer = (\<lambda>n. Inl (Error ''offline'')),
     contactSearchAnswer = (\<lambda>n r. Inl (Error ''offline'')),
     contactWriteAnswer = (\<lambda>n r. Inl (Error ''offline'')),
     accountSearchAnswer = (\<lambda>n r. Inl (Error ''offline'')),
     accountWriteAnswer = (\<lambda>n r. Inl (Error ''offline'')),
     opportunitySearchAnswer = (\<lambda>n r. Inl (Error ''offline'')),
     opportunityWriteAnswer = (\<lambda>n r. Inl (Error ''offline'')),
     organizationIdAnswer = (\<lambda>n r. Inl (Error ''offline'')),
     companyDomain = (\<lambda>values. Inr None),
     companyAttributes = (\<lambda>values. Inr []),
     domainMatches = (\<lambda>domain account. False),
     extractNumberValue = (\<lambda>v. Inr JNull) \<rparr>"

definition cachedWorld :: "stage list \<Rightarrow> world" where
  "cachedWorld stages =
     \<lparr> apolloStagesCache = Some stages, apolloOpportunityStagesCache = Some stages,
       requests = [], console = [] \<rparr>"

definition closedWon :: stage where
  "closedWon = \<lparr> stage_id = ''1'', stage_name = ''Closed Won'' \<rparr>"

definition blankStage :: stage where
  "blankStage = \<lparr> stage_id = ''1'', stage_name = '' '' \<rparr>"

text \<open>More inputs: a second environment, whose stage lists are empty, and a stage list.\<close>

definition emptyStagesEnv :: env where
  "emptyStagesEnv = offlineEnv\<lparr> contactStagesAnswer := (\<lambda>n. Inr []),
     opportunityStagesAnswer := (\<lambda>n. Inr []) \<rparr>"

text \<open>A world with nothing cached and nothing done.\<close>

definition emptyWorld :: world where
  "emptyWorld = \<lparr> apolloStagesCache = None, apolloOpportunityStagesCache = None,
     requests = [], console = [] \<rparr>"

text \<open>
  A person record with the given list of email entries, a contact with another email, a
  contact with the same email in other letter case, and an environment that serves the
  record, empty stage lists and the given search result.
\<close>

definition personRecord :: "json list \<Rightarrow> json" where
  "personRecord emails = JObj [(''data'', JObj [(''values'', JObj
     [(''email_addresses'', JArr emails),
      (''name'', JArr [JObj [(''first_name'', JStr ''Ann''), (''last_name'', JStr ''Lee'')]])])])]"

definition annEmail :: json where
  "annEmail = JObj [(''email_address'', JStr ''ann@example.com'')]"

definition bobContact :: apollo_contact where
  "bobContact = \<lparr> contact_id = Some ''c1'', contact_email = Some ''bob@example.com'',
     contact_first_name = Some ''Bob'' \<rparr>"


definition personEnv :: "json \<Rightarrow> apollo_contact list \<Rightarrow> env" where
  "personEnv record contacts = emptyStagesEnv\<lparr> attioFetch := (\<lambda>endpoint. Inr record),
     contactSearchAnswer := (\<lambda>n r. Inr contacts),
     contactWriteAnswer := (\<lambda>n r. Inr bobContact) \<rparr>"

text \<open>
  A deal record named \<^verbatim>\<open>Big Deal\<close> with the given description, an opportunity of another
  name whose description carries the marker of record \<^verbatim>\<open>r1\<close>, and an environment alike.
\<close>

definition dealRecord :: "string \<Rightarrow> json" where
  "dealRecord text = JObj [(''data'', JObj [(''values'', JObj
     [(''name'', JArr [JObj [(''value'', JStr ''Big Deal'')]]),
      (''description'', JArr [JObj [(''value'', JStr text)]])])])]"

definition markedOpp :: apollo_opportunity where
  "markedOpp = \<lparr> opp_id = Some ''o1'', opp_name = Some ''Another Deal'',
     opp_description = Some ''moved [Attio Record ID: r1]'' \<rparr>"

definition dealEnv :: "json \<Rightarrow> apollo_opportunity list \<Rightarrow> env" where
  "dealEnv record opps = emptyStagesEnv\<lparr> attioFetch := (\<lambda>endpoint. Inr record),
     opportunitySearchAnswer := (\<lambda>n r. Inr opps),
     opportunityWriteAnswer := (\<lambda>n r. Inr markedOpp) \<rparr>"


text \<open>A company record named \<^verbatim>\<open>Acme\<close>, an account of that name, and an environment alike.\<close>

definition acmeRecord :: json where
  "acmeRecord = JObj [(''data'', JObj [(''values'', JObj
     [(''name'', JArr [JObj [(''value'', JStr ''Acme'')]])])])]"

definition acmeAccount :: apollo_account where
  "acmeAccount = \<lparr> account_id = Some ''a1'', account_name = Some ''ACME'',
     account_domain = None, account_website_url = None \<rparr>"

definition companyEnv :: "json \<Rightarrow> apollo_account list \<Rightarrow> env" where
  "companyEnv record accounts = emptyStagesEnv\<lparr> attioFetch := (\<lambda>endpoint. Inr record),
     accountSearchAnswer := (\<lambda>n r. Inr accounts),
     accountWriteAnswer := (\<lambda>n r. Inr acmeAccount) \<rparr>"

section \<open>Value extraction\<close>

text \<open>
  C1. The claim: for every input value, \<^verbatim>\<open>extractAttioValue\<close> returns without throwing,
  and what it returns is a string or null. The code breaks it on the fall-back line of the
  array branch, which hands out a truthy \<^verbatim>\<open>title\<close>, \<^verbatim>\<open>name\<close> or \<^verbatim>\<open>label\<close> as it is: from
  \<^verbatim>\<open>[{title: 5}]\<close> it returns the number 5.
\<close>

theorem extractAttioValue_returns_number:
  "extractAttioValue (JArr [JObj [(''title'', JNum ''5'')]]) = Inr (JNum ''5'')
   \<and> \<not> isStringOrNull (JNum ''5'')"
  by (simp add: extractAttioValue_def getProp_def js_or_def isStringOrNull_def)

text \<open>
  Nor does the function return on every input: the conversion to text throws on a
  \<^verbatim>\<open>value\<close> that is an object with a member \<^verbatim>\<open>toString\<close>, as in
  \<^verbatim>\<open>[{value: {toString: 1}}]\<close>.
\<close>

lemma extractAttioValue_throws:
  "extractAttioValue (JArr [JObj [(''value'', JObj [(''toString'', JNum ''1'')])]]) =
     Inl (TypeError ''Cannot convert object to primitive value'')"
  by (simp add: extractAttioValue_def getProp_def stringOf_def js_ToString_def)

text \<open>
  C2, as stated: the first non-empty candidate in the order option title, value, name,
  title, label. The code asks for \<^verbatim>\<open>title\<close> before \<^verbatim>\<open>name\<close>: from
  \<^verbatim>\<open>[{name: "A", title: "B"}]\<close> it returns \<^verbatim>\<open>"B"\<close>, the stated order gives \<^verbatim>\<open>"A"\<close>.
\<close>

theorem extractAttioValue_title_before_name:
  "extractAttioValue (JArr [JObj [(''name'', JStr ''A''), (''title'', JStr ''B'')]])
     = Inr (JStr ''B'')
   \<and> spec_extractAttioValue (JArr [JObj [(''name'', JStr ''A''), (''title'', JStr ''B'')]])
     = JStr ''A''"
  by (simp add: extractAttioValue_def getProp_def js_or_def spec_extractAttioValue_def
        spec_candidates_def firstNonEmpty_def)

text \<open>
  C2, amended. For every input value on which the function throws or returns a value of
  its declared type: the result is null for a falsy value, for \<^verbatim>\<open>true\<close> and for an empty
  array, the text of a string or a number, and otherwise the first candidate that counts,
  converted to text. For the first entry of a non-empty array the order is option title
  (truthy), value (neither null nor undefined), person name (first or last name truthy),
  email address, phone number, title, name, label (truthy); for an object it is value,
  title, name, label, and a candidate counts when it is a string. The result is null if no
  candidate counts, and the function throws when the candidate has no text. The inputs
  left out are those of C1, where the fall-back line returns a member that is no string.
\<close>

theorem extractAttioValue_priority:
  assumes "declaredType (extractAttioValue v)"
  shows "extractAttioValue v = amended_extractAttioValue v"
proof (cases v)
  case (JArr xs)
  show ?thesis
  proof (cases xs)
    case Nil
    with JArr show ?thesis by (simp add: extractAttioValue_def amended_extractAttioValue_def)
  next
    case (Cons e es)
    have str: "\<And>x. truthy x \<Longrightarrow> isStringOrNull x \<Longrightarrow> stringOf x = Inr x"
      by (auto simp add: isStringOrNull_def stringOf_def js_ToString_def split: json.splits)
    let ?early = "truthy (getProp (getProp e ''option'') ''title'')
        \<or> \<not> nullish (getProp e ''value'')
        \<or> truthy (getProp e ''first_name'') \<or> truthy (getProp e ''last_name'')
        \<or> truthy (getProp e ''email_address'') \<or> truthy (getProp e ''phone_number'')"
    show ?thesis
    proof (cases ?early)
      case True
      with JArr Cons show ?thesis
        by (auto simp add: extractAttioValue_def amended_extractAttioValue_def
              entryCandidates_def personNameCandidate_def nullish_def js_or_def)
    next
      case False
      with JArr Cons assms
      have ty: "isStringOrNull (js_or (getProp e ''title'')
                  (js_or (getProp e ''name'') (js_or (getProp e ''label'') JNull)))"
        by (auto simp add: declaredType_def extractAttioValue_def nullish_def)
      from False JArr Cons ty show ?thesis
        by (auto simp add: extractAttioValue_def amended_extractAttioValue_def
              entryCandidates_def nullish_def js_or_def str split: if_splits)
    qed
  qed
next
  case (JObj kvs)
  then show ?thesis
    by (simp add: extractAttioValue_def amended_extractAttioValue_def objectCandidates_def)
qed (simp_all add: extractAttioValue_def amended_extractAttioValue_def)

text \<open>
  The specification's examples, the counterexample above, and an entry whose value
  decides before its person name.
\<close>

theorem extractAttioValue_priority_witness:
  "declaredType (extractAttioValue (JArr [JObj [(''name'', JStr ''A''), (''title'', JStr ''B'')]]))
   \<and> extractAttioValue (JArr [JObj [(''name'', JStr ''A''), (''title'', JStr ''B'')]])
       = amended_extractAttioValue (JArr [JObj [(''name'', JStr ''A''), (''title'', JStr ''B'')]])
   \<and> amended_extractAttioValue (JArr [JObj [(''name'', JStr ''A''), (''title'', JStr ''B'')]])
       = Inr (JStr ''B'')"
  using extractAttioValue_priority
    [of "JArr [JObj [(''name'', JStr ''A''), (''title'', JStr ''B'')]]"]
  by (simp add: declaredType_def extractAttioValue_def isStringOrNull_def
        amended_extractAttioValue_def entryCandidates_def getProp_def js_or_def nullish_def
        stringOf_def js_ToString_def)

lemma extractAttioValue_examples:
  "extractAttioValue (JArr [JObj [(''option'', JObj [(''title'', JStr ''VP Sales'')])]])
     = Inr (JStr ''VP Sales'')
   \<and> extractAttioValue (JArr [JObj [(''value'', JStr ''Acme'')]]) = Inr (JStr ''Acme'')
   \<and> extractAttioValue (JStr ''5551234'') = Inr (JStr ''5551234'')
   \<and> extractAttioValue JNull = Inr JNull
   \<and> extractAttioValue (JArr [JObj [(''value'', JStr ''x''), (''first_name'', JStr ''A'')]])
     = Inr (JStr ''x'')
   \<and> extractAttioValue (JArr [JObj [(''first_name'', JStr ''Ann''), (''last_name'', JStr ''Lee'')]])
     = Inr (JStr ''Ann Lee'')
   \<and> extractAttioValue (JArr []) = Inr JNull
   \<and> extractAttioValue (JNum ''0'') = Inr JNull"
  by (simp add: extractAttioValue_def getProp_def js_or_def stringOf_def js_ToString_def
        fullName_def trim_def isWhiteSpace_def)

section \<open>Stage look-up\<close>

lemma getApolloStages_cached:
  "apolloStagesCache w = Some stages \<Longrightarrow> getApolloStages env w = (stages, w)"
  by (simp add: getApolloStages_def)

lemma getApolloOpportunityStages_cached:
  "apolloOpportunityStagesCache w = Some stages \<Longrightarrow>
   getApolloOpportunityStages env w = (stages, w)"
  by (simp add: getApolloOpportunityStages_def)

lemma trim_Nil [simp]: "trim [] = []"
  by (simp add: trim_def)

lemma toLowerCase_eq_Nil [simp]: "toLowerCase s = [] \<longleftrightarrow> s = []"
  by (simp add: toLowerCase_def)

lemma normalizeStage_eq_iff:
  assumes "trim stageName \<noteq> []"
  shows "normalizeStage x = normalizeStage stageName
     \<longleftrightarrow> toLowerCase (trim x) = toLowerCase (trim stageName)"
proof -
  from assms have ne: "stageName \<noteq> []" by auto
  show ?thesis
  proof (cases "x = []")
    case True
    with assms ne show ?thesis
      by (auto simp add: normalizeStage_def toLowerCase_def)
  next
    case False
    with ne show ?thesis by (simp add: normalizeStage_def)
  qed
qed

lemma find_Some_if_member: "x \<in> set xs \<Longrightarrow> P x \<Longrightarrow> \<exists>m. List.find P xs = Some m"
  by (cases "List.find P xs") (auto simp add: find_None_iff)

text \<open>
  C3, as stated, for every free-text stage name. A blank name escapes it: with the stage
  list \<^verbatim>\<open>[{id: "1", name: " "}]\<close>, the opportunity look-up of \<^verbatim>\<open>" "\<close> returns null (it gives
  up on a name that is empty once normalized), and the contact look-up of \<^verbatim>\<open>""\<close> finds the
  stage in the substring branch.
\<close>

theorem blank_stage_name_misses_exact_match:
  "trim (stage_name blankStage) = trim '' ''
   \<and> fst (findApolloOpportunityStageIdByName offlineEnv '' '' (cachedWorld [blankStage])) = None
   \<and> trim (stage_name blankStage) = trim ''''
   \<and> findApolloStageIdByName offlineEnv '''' (cachedWorld [blankStage]) =
       (Some ''1'', emit (PartialMatchFound ContactStages '''' ''1'') (cachedWorld [blankStage]))"
  by (simp add: findApolloOpportunityStageIdByName_def getApolloOpportunityStages_def
        cachedWorld_def blankStage_def normalizeStage_def trim_def isWhiteSpace_def
        toLowerCase_def orEmpty_def emit_def findApolloStageIdByName_def getApolloStages_def
        exactMatch_def partialMatch_def lowerChar_def isUpper_def)

text \<open>
  C3, amended: for every stage name that is not blank and every cached stage list with a
  stage whose name equals it after trimming and lower-casing, both look-ups return the
  identifier of the first such stage of the list, log an exact match and nothing else, and
  leave the rest of the state as it was: the substring branch is not reached and no
  request is made.
\<close>

theorem exact_match_wins:
  assumes blank: "trim stageName \<noteq> []"
      and mem: "s \<in> set stages"
      and eq: "toLowerCase (trim (stage_name s)) = toLowerCase (trim stageName)"
  shows "\<exists>m. List.find (\<lambda>x. toLowerCase (trim (stage_name x)) = toLowerCase (trim stageName))
                stages = Some m
     \<and> (apolloStagesCache w = Some stages \<longrightarrow>
          findApolloStageIdByName env stageName w =
            (Some (stage_id m), emit (ExactMatchFound ContactStages stageName (stage_id m)) w))
     \<and> (apolloOpportunityStagesCache w = Some stages \<longrightarrow>
          findApolloOpportunityStageIdByName env stageName w =
            (Some (stage_id m),
             emit (ExactMatchFound OpportunityStages stageName (stage_id m)) w))"
proof -
  let ?P = "\<lambda>x. toLowerCase (trim (stage_name x)) = toLowerCase (trim stageName)"
  from mem eq obtain m where m: "List.find ?P stages = Some m"
    using find_Some_if_member [of s stages ?P] by blast
  have ne: "stageName \<noteq> []" using blank by auto
  have P1: "(\<lambda>x. normalizeStage (stage_name x) = normalizeStage stageName) = ?P"
    using normalizeStage_eq_iff [OF blank] by auto
  have ns: "normalizeStage stageName = Some (toLowerCase (trim stageName))"
    using ne by (simp add: normalizeStage_def)
  have P2: "(\<lambda>x. normalizeStage (stage_name x) = Some (toLowerCase (trim stageName))) = ?P"
    using P1 ns by simp
  have nonempty: "stages \<noteq> []" using mem by auto
  have c: "apolloStagesCache w = Some stages \<Longrightarrow>
          findApolloStageIdByName env stageName w =
            (Some (stage_id m), emit (ExactMatchFound ContactStages stageName (stage_id m)) w)"
    using m by (simp add: findApolloStageIdByName_def getApolloStages_cached exactMatch_def P1)
  have d: "apolloOpportunityStagesCache w = Some stages \<Longrightarrow>
          findApolloOpportunityStageIdByName env stageName w =
            (Some (stage_id m),
             emit (ExactMatchFound OpportunityStages stageName (stage_id m)) w)"
    using m nonempty blank
    by (simp add: findApolloOpportunityStageIdByName_def getApolloOpportunityStages_cached
          exactOpportunityMatch_def ns orEmpty_def P2)
  from m c d show ?thesis by blast
qed

text \<open>The specification's example: \<^verbatim>\<open>"closed won"\<close> against \<^verbatim>\<open>[{id: "1", name: "Closed Won"}]\<close>.\<close>

theorem exact_match_wins_witness:
  "trim ''closed won'' \<noteq> [] \<and> closedWon \<in> set [closedWon]
   \<and> toLowerCase (trim (stage_name closedWon)) = toLowerCase (trim ''closed won'')
   \<and> findApolloStageIdByName offlineEnv ''closed won'' (cachedWorld [closedWon]) =
       (Some ''1'', emit (ExactMatchFound ContactStages ''closed won'' ''1'')
                      (cachedWorld [closedWon]))
   \<and> findApolloOpportunityStageIdByName offlineEnv ''closed won'' (cachedWorld [closedWon]) =
       (Some ''1'', emit (ExactMatchFound OpportunityStages ''closed won'' ''1'')
                      (cachedWorld [closedWon]))"
  using exact_match_wins [of "''closed won''" closedWon "[closedWon]"
      "cachedWorld [closedWon]" offlineEnv]
  by (simp add: trim_def isWhiteSpace_def toLowerCase_def lowerChar_def isUpper_def
        cachedWorld_def closedWon_def)

section \<open>Stage mapping with a populated cache\<close>

lemma logged_simps [simp]:
  "apolloStagesCache (logged es w) = apolloStagesCache w"
  "apolloOpportunityStagesCache (logged es w) = apolloOpportunityStagesCache w"
  "requests (logged es w) = requests w"
  "console (logged es w) = console w @ es"
  "logged es2 (logged es1 w) = logged (es1 @ es2) w"
  "emit e (logged es w) = logged (es @ [e]) w"
  by (simp_all add: logged_def emit_def)

lemma emit_logged: "emit e w = logged [e] w"
  by (simp add: logged_def emit_def)

lemma logged_Nil: "w = logged [] w"
  by (simp add: logged_def)

lemma find_pure:
  "\<exists>out es. \<forall>env w. apolloStagesCache w = Some stages \<longrightarrow>
      findApolloStageIdByName env n w = (out, logged es w)"
proof (cases "exactMatch stages (normalizeStage n)")
  case (Some m)
  then show ?thesis
    by (intro exI [of _ "Some (stage_id m)"] exI [of _ "[ExactMatchFound ContactStages n (stage_id m)]"])
       (simp add: findApolloStageIdByName_def getApolloStages_cached emit_logged)
next
  case None
  note ex = this
  show ?thesis
  proof (cases "partialMatch stages (normalizeStage n)")
    case (Some m)
    with ex show ?thesis
      by (intro exI [of _ "Some (stage_id m)"] exI [of _ "[PartialMatchFound ContactStages n (stage_id m)]"])
         (simp add: findApolloStageIdByName_def getApolloStages_cached emit_logged)
  next
    case None
    with ex show ?thesis
      by (intro exI [of _ "None"] exI [of _ "[NoMatchFound ContactStages n]"])
         (simp add: findApolloStageIdByName_def getApolloStages_cached emit_logged)
  qed
qed

lemma findMapped_pure:
  "\<exists>out es. \<forall>env w. apolloStagesCache w = Some stages \<longrightarrow>
      findMapped env hit w = (out, logged es w)"
proof (cases hit)
  case NoEntry
  then show ?thesis
    by (intro exI [of _ "Inr None"] exI [of _ "[]"]) (simp add: findMapped_def logged_def)
next
  case (Mapped m)
  obtain out es where "\<forall>env w. apolloStagesCache w = Some stages \<longrightarrow>
      findApolloStageIdByName env m w = (out, logged es w)"
    using find_pure by blast
  with Mapped show ?thesis
    by (intro exI [of _ "Inr out"] exI [of _ es]) (simp add: findMapped_def)
next
  case Inherited
  then show ?thesis
    by (intro exI [of _ "Inl (TypeError ''stage.trim is not a function'')"] exI [of _ "[]"])
       (simp add: findMapped_def getApolloStages_cached logged_def)
qed

lemma mapStageToApollo_pure:
  "\<exists>out es. \<forall>env w. apolloStagesCache w = Some stages \<longrightarrow>
      mapStageToApollo env attioStage w = (out, logged es w)"
proof -
  define hit where "hit = (if hitTruthy (tableLookup STAGE_NAME_MAPPING attioStage)
             then tableLookup STAGE_NAME_MAPPING attioStage
             else tableLookup STAGE_NAME_MAPPING (orEmpty (normalizeStage attioStage)))"
  obtain o1 e1 where m: "\<forall>env w. apolloStagesCache w = Some stages \<longrightarrow>
      findMapped env hit w = (o1, logged e1 w)"
    using findMapped_pure by blast
  obtain o2 e2 where d: "\<forall>env w. apolloStagesCache w = Some stages \<longrightarrow>
      findApolloStageIdByName env attioStage w = (o2, logged e2 w)"
    using find_pure by blast
  define pre where "pre = (if hitTruthy hit then [ManualMapping ContactStages attioStage] @ e1 else [])"
  define via where "via = (if hitTruthy hit then o1 else Inr None)"
  have step1: "\<And>env w. apolloStagesCache w = Some stages \<Longrightarrow>
      (if hitTruthy hit
             then findMapped env hit (emit (ManualMapping ContactStages attioStage) w)
             else (Inr None, w)) = (via, logged pre w)"
    using m by (auto simp add: via_def pre_def emit_logged logged_def)
  show ?thesis
  proof (cases "attioStage = []")
    case True
    then show ?thesis
      by (intro exI [of _ "Inr attioStage"] exI [of _ "[]"]) (simp add: mapStageToApollo_def logged_def)
  next
    case False
    show ?thesis
      apply (rule exI [of _ "case via of Inl e \<Rightarrow> Inl e
          | Inr found \<Rightarrow> if orEmpty found \<noteq> [] then Inr (orEmpty found)
               else if orEmpty o2 \<noteq> [] then Inr (orEmpty o2) else Inr attioStage"])
      apply (rule exI [of _ "case via of Inl e \<Rightarrow> pre
          | Inr found \<Rightarrow> if orEmpty found \<noteq> [] then pre
               else if orEmpty o2 \<noteq> [] then pre @ e2
               else if looksLikeId attioStage then pre @ e2 @ [AppearsToBeId ContactStages attioStage]
               else pre @ e2 @ [PassThrough ContactStages attioStage]"])
      using False step1 d
      by (auto simp add: mapStageToApollo_def Let_def hit_def [symmetric] split: sum.splits)
  qed
qed

text \<open>
  C6. With the contact stage cache populated, a call of \<^verbatim>\<open>mapStageToApollo\<close> leaves the
  cache as it is, and a second call with the same input returns what the first returned,
  whatever the remote platform would answer by then (\<open>env'\<close> may differ from \<open>env\<close>).
\<close>

theorem mapStageToApollo_repeatable:
  assumes "apolloStagesCache w = Some stages"
  shows "apolloStagesCache (snd (mapStageToApollo env attioStage w)) = Some stages
     \<and> fst (mapStageToApollo env' attioStage (snd (mapStageToApollo env attioStage w)))
         = fst (mapStageToApollo env attioStage w)"
proof -
  obtain out es where p: "\<forall>env w. apolloStagesCache w = Some stages \<longrightarrow>
      mapStageToApollo env attioStage w = (out, logged es w)"
    using mapStageToApollo_pure by blast
  have 1: "mapStageToApollo env attioStage w = (out, logged es w)" using p assms by blast
  have 2: "mapStageToApollo env' attioStage (logged es w) = (out, logged es (logged es w))"
    using p assms by simp
  show ?thesis using 1 2 assms by simp
qed

theorem mapStageToApollo_repeatable_witness:
  "apolloStagesCache (cachedWorld [closedWon]) = Some [closedWon]
   \<and> fst (mapStageToApollo offlineEnv ''closed won'' (cachedWorld [closedWon])) = Inr ''1''
   \<and> fst (mapStageToApollo emptyStagesEnv ''closed won''
            (snd (mapStageToApollo offlineEnv ''closed won'' (cachedWorld [closedWon]))))
       = Inr ''1''"
  using mapStageToApollo_repeatable [of "cachedWorld [closedWon]" "[closedWon]" offlineEnv
      "''closed won''" emptyStagesEnv]
  by (simp add: mapStageToApollo_def tableLookup_def STAGE_NAME_MAPPING_def
        objectPrototypeKeys_def normalizeStage_def findApolloStageIdByName_def
        getApolloStages_def exactMatch_def cachedWorld_def closedWon_def trim_def
        isWhiteSpace_def toLowerCase_def lowerChar_def isUpper_def orEmpty_def emit_def)

section \<open>Unmatched stage names\<close>

lemma orEmpty_simps [simp]: "orEmpty None = []" "orEmpty (Some s) = s"
  by (simp_all add: orEmpty_def)








text \<open>
  A name of a member of \<^verbatim>\<open>Object.prototype\<close>: the table has no entry under
  \<^verbatim>\<open>constructor\<close> and no stage matches it, yet the look-up in the object literal finds the
  inherited member, which is no string, and both mappings throw.
\<close>

lemma prototype_name_throws:
  "fst (mapStageToApollo offlineEnv ''constructor'' (cachedWorld [closedWon]))
     = Inl (TypeError ''stage.trim is not a function'')
   \<and> fst (mapDealStageToApollo offlineEnv ''constructor'' (cachedWorld [closedWon]))
     = Inl (TypeError ''stage.trim is not a function'')"
  by (simp add: mapStageToApollo_def mapDealStageToApollo_def tableLookup_def
        STAGE_NAME_MAPPING_def OPPORTUNITY_STAGE_NAME_MAPPING_def objectPrototypeKeys_def
        findMapped_def findMappedOpportunity_def getApolloStages_def
        getApolloOpportunityStages_def cachedWorld_def closedWon_def trim_def isWhiteSpace_def
        looksLikeId_def emit_def Let_def)




section \<open>The event handler\<close>

text \<open>
  C8. For every event and whatever the sync does, \<^verbatim>\<open>onRecordUpdated\<close> returns normally:
  an error of the sync is logged and goes no further.
\<close>

theorem onRecordUpdated_returns_normally:
  "fst (onRecordUpdated env object recordId w) = Inr ()
   \<and> (object = ''people'' \<and> fst (syncToApollo env recordId w) = Inl e \<longrightarrow>
        console (snd (onRecordUpdated env object recordId w))
          = console (snd (syncToApollo env recordId w)) @ [SyncFailed recordId e])"
  by (auto simp add: onRecordUpdated_def emit_def split: prod.splits sum.splits)

theorem onRecordUpdated_returns_normally_witness:
  "fst (syncToApollo offlineEnv ''rec1'' (cachedWorld [])) = Inl (Error ''offline'')
   \<and> fst (onRecordUpdated offlineEnv ''people'' ''rec1'' (cachedWorld [])) = Inr ()
   \<and> console (snd (onRecordUpdated offlineEnv ''people'' ''rec1'' (cachedWorld [])))
       = [SyncFailed ''rec1'' (Error ''offline'')]"
  using onRecordUpdated_returns_normally [of offlineEnv "''people''" "''rec1''" "cachedWorld []"
      "Error ''offline''"]
  by (simp add: syncToApollo_def getPerson_def offlineEnv_def cachedWorld_def)

section \<open>Concrete runs\<close>

lemmas eval_js = getProp_def js_or_def index0_def hasKeys_def objectKeys_def optJson_def
  isArray_def recordValues_def js_ToString_def stringOf_def
  nullish_def isString_def orEmpty_def trim_def isWhiteSpace_def toLowerCase_def lowerChar_def
  isUpper_def Let_def

lemmas eval_env = offlineEnv_def emptyStagesEnv_def personEnv_def dealEnv_def companyEnv_def
  emptyWorld_def cachedWorld_def issue_def emit_def

lemmas eval_person = syncToApollo_def getPerson_def personRecord_def annEmail_def bobContact_def
  personEmail_def personNames_def extractStageName_def stageNameOfData_def stageNameOf_def
  stageNameOfFound_def loggedStageName_def stageIdOf_def
  stageIdKey_def mapAndValidateStage_def extractAttioAttributes_def urlAttribute_def
  plainAttribute_def truthyAttribute_def droppedAttribute_def
  pushContact_def searchApolloContacts_def updateApolloContact_def createApolloContact_def
  contactUpdateData_def contactCreateData_def additional_def additionalFields_def

lemmas eval_deal = syncDealToApollo_def getDeal_def dealRecord_def markedOpp_def dealNameOf_def
  dealCompanyOf_def lookupAccountId_def searchDeal_def searchApolloOpportunities_def
  matchOpportunity_def matchByMarker_def attioRecordIdMarker_def findByName_def sameName_def
  pushOpportunity_def dealAttributesOf_def dealStageOf_def dealStageOfEntry_def
  extractAttioValue_deal_def trimmedText_def dealStageFields_def updateApolloOpportunity_def
  createApolloOpportunity_def dealUpdateData_def dealCreateData_def updateDescription_def
  createDescription_def paragraphBreak_def

lemmas eval_company = syncCompanyToApollo_def getCompany_def acmeRecord_def acmeAccount_def
  companyNameOf_def searchApolloAccounts_def findByName_def sameName_def pushAccount_def
  updateApolloAccount_def createApolloAccount_def companyUpdateData_def companyCreateData_def

text \<open>
  Ann's record while the contact search answers with Bob: the sync updates Bob's contact
  and searches once more to verify. The person sync takes the first search result without
  comparing its email with the record's; the deal sync and the company sync compare what
  the search gave them.
\<close>

lemma person_update_run:
  "syncToApollo (personEnv (personRecord [annEmail]) [bobContact]) ''rec1'' emptyWorld =
     (Inr \<lparr>created = 0, updated = 1\<rparr>,
      emptyWorld\<lparr>requests := [SearchApolloContacts (JStr ''ann@example.com'') 1,
        UpdateApolloContact ''c1'' (JObj [(''email'', JStr ''ann@example.com''),
            (''first_name'', JStr ''Ann''), (''last_name'', JStr ''Lee'')]),
        SearchApolloContacts (JStr ''ann@example.com'') 1]\<rparr>)"
  by (simp add: eval_person eval_js eval_env)

lemma person_create_run:
  "fst (syncToApollo (personEnv (personRecord [annEmail]) []) ''rec1'' emptyWorld) =
     Inr \<lparr>created = 1, updated = 0\<rparr>"
  by (simp add: eval_person eval_js eval_env)

text \<open>
  The deal \<^verbatim>\<open>Big Deal\<close> of record \<^verbatim>\<open>r1\<close> while the search answers with an opportunity of
  another name that carries the marker of \<^verbatim>\<open>r1\<close>: the sync updates that opportunity.
\<close>

lemma deal_update_run:
  "syncDealToApollo (dealEnv (dealRecord ''note'') [markedOpp]) ''r1'' emptyWorld =
     (Inr \<lparr>created = 0, updated = 1\<rparr>,
      emptyWorld\<lparr>requests := [SearchApolloOpportunitiesByName (JStr ''Big Deal'') 20,
        UpdateApolloOpportunity ''o1''
         (JObj [(''name'', JStr ''Big Deal''),
            (''description'',
             JStr (''note'' @ paragraphBreak @ ''[Attio Record ID: r1]''))])]\<rparr>)"
  by (simp add: eval_deal eval_js eval_env)

lemma company_update_run:
  "fst (syncCompanyToApollo (companyEnv acmeRecord [acmeAccount]) ''r1'' emptyWorld) =
     Inr \<lparr>created = 0, updated = 1\<rparr>"
  by (simp add: eval_company eval_js eval_env)

section \<open>A person without email\<close>

text \<open>The three shapes the claim names: no member, an empty list, a first entry without address.\<close>

lemma no_email_shapes:
  "\<not> truthy (personEmail (JObj []))
   \<and> \<not> truthy (personEmail (JObj [(''email_addresses'', JArr [])]))
   \<and> \<not> truthy (personEmail (JObj [(''email_addresses'', JArr [JObj []])]))"
  by (simp add: personEmail_def eval_js)

text \<open>
  C4. When Attio answers with a record whose values hold no email address,
  \<^verbatim>\<open>syncToApollo\<close> throws, and the state it leaves is the state it found: no call to the
  Apollo module was made and no cache was filled. The error is the missing email, unless
  the record has no \<^verbatim>\<open>data\<close> or its \<^verbatim>\<open>data\<close> is an array, which end the sync earlier.
\<close>

theorem syncToApollo_without_email:
  assumes "getPerson env recordId = Inr attioRecord"
      and "\<not> truthy (personEmail (recordValues (getProp attioRecord ''data'')))"
  shows "syncToApollo env recordId w =
     (Inl (if \<not> truthy (getProp attioRecord ''data'')
             then Error (''Failed to fetch Attio record '' @ recordId)
           else if isArray (getProp attioRecord ''data'')
             then TypeError ''Cannot read properties of undefined (reading 'substring')''
           else Error (''No email address found for record '' @ recordId
                         @ ''. Email is required for syncing.'')), w)"
  using assms by (simp add: syncToApollo_def Let_def)

theorem syncToApollo_without_email_witness:
  "getPerson (personEnv (personRecord []) [bobContact]) ''rec1'' = Inr (personRecord [])
   \<and> \<not> truthy (personEmail (recordValues (getProp (personRecord []) ''data'')))
   \<and> syncToApollo (personEnv (personRecord []) [bobContact]) ''rec1'' emptyWorld =
       (Inl (Error ''No email address found for record rec1. Email is required for syncing.''),
        emptyWorld)
   \<and> requests emptyWorld = []"
  using syncToApollo_without_email
    [of "personEnv (personRecord []) [bobContact]" "''rec1''" "personRecord []" emptyWorld]
  by (simp add: getPerson_def personEnv_def personRecord_def personEmail_def emptyWorld_def
        eval_js)

section \<open>Update or create\<close>

lemma readsOnly_refl [simp]: "readsOnly w w"
  by (simp add: readsOnly_def)


lemma readsOnly_emit [simp]: "readsOnly w (emit e w') = readsOnly w w'"
  by (simp add: readsOnly_def emit_def)

lemma readsOnly_emit_left [simp]: "readsOnly (emit e w) w' = readsOnly w w'"
  by (simp add: readsOnly_def emit_def)















lemma writes_self [simp]: "writes w w = []"
  by (simp add: writes_def newRequests_def)

lemma find_cong_pred: "(\<And>x. P x = Q x) \<Longrightarrow> List.find P xs = List.find Q xs"
  by (induction xs) auto











section \<open>The result of a sync\<close>

lemma pushContact_shape:
  "pushContact env email fn ln st aa w = (Inr r, w') \<Longrightarrow>
   r = \<lparr>created = 1, updated = 0\<rparr> \<or> r = \<lparr>created = 0, updated = 1\<rparr>"
  by (auto simp add: pushContact_def split: prod.splits sum.splits list.splits if_splits)

lemma pushAccount_shape:
  "pushAccount env n attrs accs w = (Inr r, w') \<Longrightarrow>
   r = \<lparr>created = 1, updated = 0\<rparr> \<or> r = \<lparr>created = 0, updated = 1\<rparr>"
  by (auto simp add: pushAccount_def split: prod.splits sum.splits list.splits if_splits)

lemma pushOpportunity_shape:
  "pushOpportunity env rid n acc attrs m w = (Inr r, w') \<Longrightarrow>
   r = \<lparr>created = 1, updated = 0\<rparr> \<or> r = \<lparr>created = 0, updated = 1\<rparr>"
  by (auto simp add: pushOpportunity_def split: prod.splits sum.splits option.splits if_splits)

lemma syncToApollo_shape:
  "syncToApollo env recordId w = (Inr r, w') \<Longrightarrow>
   r = \<lparr>created = 1, updated = 0\<rparr> \<or> r = \<lparr>created = 0, updated = 1\<rparr>"
  by (auto simp add: syncToApollo_def Let_def
        split: prod.splits sum.splits if_splits dest: pushContact_shape)

lemma syncCompanyToApollo_shape:
  "syncCompanyToApollo env recordId w = (Inr r, w') \<Longrightarrow>
   r = \<lparr>created = 1, updated = 0\<rparr> \<or> r = \<lparr>created = 0, updated = 1\<rparr>"
  by (auto simp add: syncCompanyToApollo_def Let_def
        split: prod.splits sum.splits if_splits option.splits dest: pushAccount_shape)

lemma syncDealToApollo_shape:
  "syncDealToApollo env recordId w = (Inr r, w') \<Longrightarrow>
   r = \<lparr>created = 1, updated = 0\<rparr> \<or> r = \<lparr>created = 0, updated = 1\<rparr>"
  by (auto simp add: syncDealToApollo_def Let_def
        split: prod.splits sum.splits if_splits dest: pushOpportunity_shape)

text \<open>
  C9. A run of \<^verbatim>\<open>syncToApollo\<close>, \<^verbatim>\<open>syncCompanyToApollo\<close> or \<^verbatim>\<open>syncDealToApollo\<close> that does
  not throw returns \<^verbatim>\<open>{created: 1, updated: 0}\<close> or \<^verbatim>\<open>{created: 0, updated: 1}\<close>; the two
  counts add up to 1.
\<close>

theorem sync_result_counts_one:
  assumes "syncToApollo env recordId w = (Inr r, w')
           \<or> syncCompanyToApollo env recordId w = (Inr r, w')
           \<or> syncDealToApollo env recordId w = (Inr r, w')"
  shows "(r = \<lparr>created = 1, updated = 0\<rparr> \<or> r = \<lparr>created = 0, updated = 1\<rparr>)
         \<and> created r + updated r = 1"
proof -
  from assms have "r = \<lparr>created = 1, updated = 0\<rparr> \<or> r = \<lparr>created = 0, updated = 1\<rparr>"
    using syncToApollo_shape syncCompanyToApollo_shape syncDealToApollo_shape by blast
  then show ?thesis by auto
qed

theorem sync_result_counts_one_witness:
  "syncToApollo (personEnv (personRecord [annEmail]) [bobContact]) ''rec1'' emptyWorld =
     (Inr \<lparr>created = 0, updated = 1\<rparr>,
      snd (syncToApollo (personEnv (personRecord [annEmail]) [bobContact]) ''rec1'' emptyWorld))
   \<and> created \<lparr>created = 0, updated = 1\<rparr> + updated \<lparr>created = 0, updated = 1\<rparr> = 1
   \<and> fst (syncToApollo (personEnv (personRecord [annEmail]) []) ''rec1'' emptyWorld)
       = Inr \<lparr>created = 1, updated = 0\<rparr>
   \<and> fst (syncCompanyToApollo (companyEnv acmeRecord [acmeAccount]) ''r1'' emptyWorld)
       = Inr \<lparr>created = 0, updated = 1\<rparr>
   \<and> fst (syncDealToApollo (dealEnv (dealRecord ''note'') [markedOpp]) ''r1'' emptyWorld)
       = Inr \<lparr>created = 0, updated = 1\<rparr>"
  using sync_result_counts_one
    [of "personEnv (personRecord [annEmail]) [bobContact]" "''rec1''" emptyWorld
        "\<lparr>created = 0, updated = 1\<rparr>"
        "snd (syncToApollo (personEnv (personRecord [annEmail]) [bobContact]) ''rec1'' emptyWorld)"]
    person_update_run person_create_run company_update_run deal_update_run
  by simp

section \<open>The record-id marker of a deal\<close>

lemma startsWith_self [simp]: "startsWith m m"
  by (induction m) auto

lemma str_includes_self [simp]: "str_includes m m"
  by (cases m) auto

lemma str_includes_append [simp]: "str_includes (a @ m) m"
  by (induction a) auto

text \<open>
  What holds of the marker on both paths: the description that is sent contains it, and a
  search result that carries it is the match whatever the names are.
\<close>

lemma marker_is_sent:
  "str_includes (updateDescription description recordId) (attioRecordIdMarker recordId)
   \<and> str_includes (createDescription description recordId) (attioRecordIdMarker recordId)"
  by (simp add: updateDescription_def createDescription_def flip: append_assoc)

lemma marker_match_first:
  "List.find (hasMarker recordId) apolloOpps = Some m \<Longrightarrow>
   matchOpportunity dealName recordId apolloOpps = Inr (Some m)"
  by (simp add: matchOpportunity_def matchByMarker_def hasMarker_def [abs_def])

text \<open>
  C10. The claim: on both paths the description sent contains the marker exactly once.
  The update path leaves a description that already contains the marker as it is; the
  create path appends the marker without looking. For the deal of record \<^verbatim>\<open>r1\<close> whose Attio
  description is \<^verbatim>\<open>[Attio Record ID: r1]\<close> and which no search finds, the description sent
  contains the marker twice.
\<close>

theorem create_path_repeats_marker:
  "syncDealToApollo (dealEnv (dealRecord ''[Attio Record ID: r1]'') []) ''r1'' emptyWorld =
     (Inr \<lparr>created = 1, updated = 0\<rparr>,
      emptyWorld\<lparr>requests := [SearchApolloOpportunitiesByName (JStr ''Big Deal'') 20,
        SearchApolloOpportunitiesByKeywords (JStr ''Big Deal'') 20,
        CreateApolloOpportunity
         (JObj [(''name'', JStr ''Big Deal''), (''account_id'', JNull),
            (''account_name'', JNull), (''amount'', JNull),
            (''stage_name'', JUndefined), (''probability'', JNull),
            (''close_date'', JNull),
            (''description'',
             JStr (''[Attio Record ID: r1]'' @ paragraphBreak @ ''[Attio Record ID: r1]''))])]\<rparr>)
   \<and> occurrences (''[Attio Record ID: r1]'' @ paragraphBreak @ ''[Attio Record ID: r1]'')
        (attioRecordIdMarker ''r1'') = 2"
  by (simp add: eval_deal eval_js eval_env)

end
